theory Spec2Isabelle
  imports Complex_Main "HOL-Library.Sublist"
begin

section \<open>Python values and primitives used by the services\<close>

text \<open>
  The three modules work on parsed JSON documents and on Python strings.
  A JSON document is a value of type \<open>json\<close>; a Python \<^verbatim>\<open>dict\<close> is the
  association list of its items, in insertion order, with pairwise distinct keys.
  A number is an \<^verbatim>\<open>int\<close> or a finite \<^verbatim>\<open>float\<close>, the latter given by its value:
  all the code observes of a float is whether it is zero. A Python \<^verbatim>\<open>str\<close> is a
  \<open>string\<close>, the UTF-8 bytes of the text: equality and substring containment on the
  bytes agree with Python's on code points. The builtins \<^verbatim>\<open>str.lower()\<close>,
  \<^verbatim>\<open>str.strip()\<close> and \<^verbatim>\<open>str()\<close> depend on the Unicode tables and on the
  printing of every value; they are parameters of the functions below (\<open>lower\<close>,
  \<open>py_strip\<close>, \<open>py_str\<close>), so that what is proved holds of the builtins
  themselves.
\<close>

datatype json =
    JNull
  | JBool bool
  | JNum int
  | JFloat rat
  | JStr string
  | JArr "json list"
  | JObj "(string \<times> json) list"

text \<open>
  The exceptions the code raises or catches. \<open>HTTPException\<close> carries
  \<^verbatim>\<open>status_code\<close> and \<^verbatim>\<open>detail\<close>; \<open>RequestError\<close> is
  \<^verbatim>\<open>httpx.RequestError\<close> (any transport failure). All of them are subclasses of
  \<^verbatim>\<open>Exception\<close>, and only \<open>FileNotFoundError\<close> is caught by
  \<^verbatim>\<open>except FileNotFoundError\<close>.
\<close>

datatype exn =
    HTTPException int string
  | FileNotFoundError
  | PermissionError
  | UnicodeDecodeError
  | JSONDecodeError
  | RequestError
  | AttributeError
  | TypeError
  | ValidationError

text \<open>Truth value of a Python object (\<^verbatim>\<open>if x\<close>, \<^verbatim>\<open>not x\<close>, \<^verbatim>\<open>x or y\<close>).\<close>

fun truthy :: "json \<Rightarrow> bool" where
  "truthy JNull = False"
| "truthy (JBool b) = b"
| "truthy (JNum n) = (n \<noteq> 0)"
| "truthy (JFloat x) = (x \<noteq> 0)"
| "truthy (JStr s) = (s \<noteq> [])"
| "truthy (JArr xs) = (xs \<noteq> [])"
| "truthy (JObj kvs) = (kvs \<noteq> [])"

text \<open>\<^verbatim>\<open>a or b\<close>: the left operand when it is truthy, else the right one.\<close>

definition py_or :: "json \<Rightarrow> json \<Rightarrow> json" where
  "py_or a b = (if truthy a then a else b)"

text \<open>\<^verbatim>\<open>d.get(k, default)\<close> on a dict.\<close>

definition dict_get :: "(string \<times> json) list \<Rightarrow> string \<Rightarrow> json \<Rightarrow> json" where
  "dict_get d k dflt = (case map_of d k of None \<Rightarrow> dflt | Some v \<Rightarrow> v)"

text \<open>
  \<^verbatim>\<open>x.get(k, default)\<close> on any parsed value: only a dict has the method, every
  other JSON value raises AttributeError.
\<close>

fun py_get :: "json \<Rightarrow> string \<Rightarrow> json \<Rightarrow> exn + json" where
  "py_get (JObj d) k dflt = Inr (dict_get d k dflt)"
| "py_get _ k dflt = Inl AttributeError"

text \<open>
  \<^verbatim>\<open>for item in x\<close>: a list yields its elements, a dict its keys, a string its
  characters; None, booleans and numbers are not iterable.
\<close>

fun py_iter :: "json \<Rightarrow> exn + json list" where
  "py_iter (JArr xs) = Inr xs"
| "py_iter (JObj kvs) = Inr (map (\<lambda>kv. JStr (fst kv)) kvs)"
| "py_iter (JStr s) = Inr (map (\<lambda>c. JStr [c]) s)"
| "py_iter _ = Inl TypeError"

text \<open>\<^verbatim>\<open>needle in haystack\<close> on strings: substring containment.\<close>

fun starts_with :: "string \<Rightarrow> string \<Rightarrow> bool" where
  "starts_with [] ys = True"
| "starts_with (x # xs) [] = False"
| "starts_with (x # xs) (y # ys) = (x = y \<and> starts_with xs ys)"

fun str_in :: "string \<Rightarrow> string \<Rightarrow> bool" where
  "str_in needle [] = (needle = [])"
| "str_in needle (y # ys) = (starts_with needle (y # ys) \<or> str_in needle ys)"

section \<open>The local resolver: \<^verbatim>\<open>NAMASTEService.search_namaste\<close>\<close>

text \<open>
  Modelled from the spec: the classes \<^verbatim>\<open>NAMASTETerm\<close> and \<^verbatim>\<open>ICD11Term\<close> of
  \<^verbatim>\<open>app.api.models.common\<close> are not among the sources. A term is the record of the
  keyword arguments its constructor is called with, and the schema validation the
  constructor runs is a parameter \<open>valid\<close>: arguments it rejects raise
  \<open>ValidationError\<close>.
\<close>

record namaste_term =
  nt_id :: json
  nt_term :: json
  nt_term_hindi :: json
  nt_category :: json
  nt_subcategory :: json
  nt_ayush_system :: json
  nt_description :: json
  nt_synonyms :: json

definition NAMASTETerm :: "(namaste_term \<Rightarrow> bool) \<Rightarrow> namaste_term \<Rightarrow> exn + namaste_term" where
  "NAMASTETerm valid args = (if valid args then Inr args else Inl ValidationError)"

text \<open>The constructor call of lines 30-39, for a catalog item and its term and system.\<close>

definition item_term :: "(string \<times> json) list \<Rightarrow> json \<Rightarrow> json \<Rightarrow> namaste_term" where
  "item_term item t system =
     \<lparr> nt_id = dict_get item ''id'' (JStr ''''),
       nt_term = t,
       nt_term_hindi = dict_get item ''term_hindi'' JNull,
       nt_category = dict_get item ''category'' (JStr ''''),
       nt_subcategory = dict_get item ''subcategory'' JNull,
       nt_ayush_system = system,
       nt_description = dict_get item ''description'' JNull,
       nt_synonyms = dict_get item ''synonyms'' (JArr []) \<rparr>"

text \<open>
  Line 28: \<^verbatim>\<open>not ayush_system or system.lower() == ayush_system.lower()\<close>. The filter
  is skipped when it is None or the empty string; otherwise \<^verbatim>\<open>system\<close> must be a
  string. \<open>lower\<close> is \<^verbatim>\<open>str.lower\<close>.
\<close>

definition system_check :: "(string \<Rightarrow> string) \<Rightarrow> string option \<Rightarrow> json \<Rightarrow> exn + bool" where
  "system_check lower ayush_system system =
     (case ayush_system of
        None \<Rightarrow> Inr True
      | Some f \<Rightarrow>
          if f = [] then Inr True
          else (case system of
                  JStr s \<Rightarrow> Inr (lower s = lower f)
                | _ \<Rightarrow> Inl AttributeError))"

text \<open>One iteration of the loop of lines 23-40.\<close>

fun scan_item ::
  "(namaste_term \<Rightarrow> bool) \<Rightarrow> (string \<Rightarrow> string) \<Rightarrow> string \<Rightarrow> string option \<Rightarrow> json
     \<Rightarrow> namaste_term list \<Rightarrow> exn + namaste_term list" where
  "scan_item valid lower query ayush_system (JObj item) results =
     (case dict_get item ''term'' (JStr '''') of
        JStr t \<Rightarrow>
          if str_in (lower query) (lower t) then
            (case system_check lower ayush_system (dict_get item ''system'' (JStr '''')) of
               Inl e \<Rightarrow> Inl e
             | Inr ok \<Rightarrow>
                 if ok then
                   (case NAMASTETerm valid
                           (item_term item (JStr t) (dict_get item ''system'' (JStr ''''))) of
                      Inl e \<Rightarrow> Inl e
                    | Inr nt \<Rightarrow> Inr (results @ [nt]))
                 else Inr results)
          else Inr results
      | _ \<Rightarrow> Inl AttributeError)"
| "scan_item valid lower query ayush_system _ results = Inl AttributeError"

fun scan_catalog ::
  "(namaste_term \<Rightarrow> bool) \<Rightarrow> (string \<Rightarrow> string) \<Rightarrow> string \<Rightarrow> string option \<Rightarrow> json list
     \<Rightarrow> namaste_term list \<Rightarrow> exn + namaste_term list" where
  "scan_catalog valid lower query ayush_system [] results = Inr results"
| "scan_catalog valid lower query ayush_system (item # items) results =
     (case scan_item valid lower query ayush_system item results of
        Inl e \<Rightarrow> Inl e
      | Inr results' \<Rightarrow> scan_catalog valid lower query ayush_system items results')"

definition not_found_detail :: "string \<Rightarrow> string" where
  "not_found_detail query = ''No NAMASTE results for '' @ [CHR 0x27] @ query @ [CHR 0x27]"

text \<open>
  The body of the \<^verbatim>\<open>try\<close> (lines 19-47). \<open>load\<close> is what
  \<^verbatim>\<open>open(self.data_file)\<close> followed by \<^verbatim>\<open>json.load(f)\<close> gives: the exception
  raised, or the parsed document.
\<close>

definition search_namaste_try ::
  "(namaste_term \<Rightarrow> bool) \<Rightarrow> (string \<Rightarrow> string) \<Rightarrow> string \<Rightarrow> string option \<Rightarrow> exn + json
     \<Rightarrow> exn + namaste_term list" where
  "search_namaste_try valid lower query ayush_system load =
     (case load of
        Inl e \<Rightarrow> Inl e
      | Inr data \<Rightarrow>
          (case py_get data ''results'' (JArr []) of
             Inl e \<Rightarrow> Inl e
           | Inr rs \<Rightarrow>
               (case py_iter rs of
                  Inl e \<Rightarrow> Inl e
                | Inr items \<Rightarrow>
                    (case scan_catalog valid lower query ayush_system items [] of
                       Inl e \<Rightarrow> Inl e
                     | Inr results \<Rightarrow>
                         if results = [] then Inl (HTTPException 404 (not_found_detail query))
                         else Inr results))))"

text \<open>The mock record of lines 52-63; \<open>term_hindi\<close> is given by its UTF-8 bytes.\<close>

definition fallback_term :: "string \<Rightarrow> namaste_term" where
  "fallback_term query =
     \<lparr> nt_id = JStr ''NAM001'',
       nt_term = JStr query,
       nt_term_hindi = JStr
         [CHR 0xE0, CHR 0xA4, CHR 0x85, CHR 0xE0, CHR 0xA4, CHR 0xA8,
          CHR 0xE0, CHR 0xA5, CHR 0x81, CHR 0xE0, CHR 0xA4, CHR 0xB5,
          CHR 0xE0, CHR 0xA4, CHR 0xBE, CHR 0xE0, CHR 0xA4, CHR 0xA6],
       nt_category = JStr ''Disease'',
       nt_subcategory = JStr ''Fever'',
       nt_ayush_system = JStr ''Ayurveda'',
       nt_description = JStr ''Fallback mock: traditional terminology example.'',
       nt_synonyms = JArr [JStr ''variant1'', JStr ''variant2''] \<rparr>"

text \<open>
  The whole method: the handlers of lines 49-67 around the body. An exception that
  leaves the body is FileNotFoundError (the mock list) or any other
  \<^verbatim>\<open>Exception\<close>, the HTTPException of line 44 included, which line 67 replaces.
\<close>

definition search_namaste ::
  "(namaste_term \<Rightarrow> bool) \<Rightarrow> (string \<Rightarrow> string) \<Rightarrow> string \<Rightarrow> string option \<Rightarrow> exn + json
     \<Rightarrow> exn + namaste_term list" where
  "search_namaste valid lower query ayush_system load =
     (case search_namaste_try valid lower query ayush_system load of
        Inr results \<Rightarrow> Inr results
      | Inl e \<Rightarrow>
          if e = FileNotFoundError then
            (case NAMASTETerm valid (fallback_term query) of
               Inl e' \<Rightarrow> Inl e'
             | Inr nt \<Rightarrow> Inr [nt])
          else Inl (HTTPException 500 ''NAMASTE search failed''))"

section \<open>The remote resolver: \<^verbatim>\<open>ICD11Service\<close>\<close>

text \<open>
  Modelled from the spec: the class \<^verbatim>\<open>ICD11Term\<close> is not among the sources either.
  The record holds the keyword arguments of lines 136-143; the validation of the
  constructor is the field \<open>ICD11Term_valid\<close> of the environment below.
\<close>

record icd11_term =
  icd_id :: json
  icd_uri :: json
  icd_code :: json
  icd_title :: json
  icd_definition :: json
  icd_parent :: json
  icd_children :: json
  icd_synonyms :: "json list"

text \<open>
  What an HTTP call gives: an exception, or a response with its
  \<^verbatim>\<open>status_code\<close> and the outcome of \<^verbatim>\<open>response.json()\<close> (the parsed body, or
  the exception the parser raises).
\<close>

datatype http_outcome =
    Raises exn
  | Response int "exn + json"

text \<open>
  A search request, by what varies in it: the URL, the parameters \<^verbatim>\<open>q\<close> and
  \<^verbatim>\<open>useFlexisearch\<close>, and the bearer token of the Authorization header.
\<close>

record search_request =
  req_url :: string
  req_q :: string
  req_useFlexisearch :: string
  req_token :: json

text \<open>
  Everything the service takes from outside. \<open>base_url\<close>, \<open>client_id\<close>
  and \<open>client_secret\<close> are the attributes set in \<^verbatim>\<open>__init__\<close> from
  \<^verbatim>\<open>app.core.config.settings\<close> (not among the sources). \<open>token_post n\<close> is the
  outcome of the POST to the token URL when \<open>n\<close> such requests were sent before it,
  \<open>search_get\<close> the outcome of a GET. \<open>py_strip\<close> is
  \<^verbatim>\<open>str.strip\<close>, \<open>py_str\<close> the builtin \<^verbatim>\<open>str\<close> on parsed values and
  \<open>ICD11Term_valid\<close> the validation of the \<^verbatim>\<open>ICD11Term\<close> constructor.
\<close>

record icd11_env =
  base_url :: string
  client_id :: "string option"
  client_secret :: "string option"
  token_post :: "nat \<Rightarrow> http_outcome"
  search_get :: "search_request \<Rightarrow> http_outcome"
  py_strip :: "string \<Rightarrow> string"
  py_str :: "json \<Rightarrow> string"
  ICD11Term_valid :: "icd11_term \<Rightarrow> bool"

text \<open>
  The mutable state: the attribute \<^verbatim>\<open>_token_cache\<close> (None at first), and the
  number of token requests sent so far.
\<close>

record icd11_state =
  token_cache :: json
  token_posts :: nat

definition initial_state :: icd11_state where
  "initial_state = \<lparr> token_cache = JNull, token_posts = 0 \<rparr>"

definition missing :: "string option \<Rightarrow> bool" where
  "missing s = (case s of None \<Rightarrow> True | Some v \<Rightarrow> v = [])"

text \<open>The \<^verbatim>\<open>try\<close> body of lines 39-53, from the outcome of the POST.\<close>

definition token_exchange :: "http_outcome \<Rightarrow> exn + json" where
  "token_exchange out =
     (case out of
        Raises e \<Rightarrow> Inl e
      | Response status_code body \<Rightarrow>
          if status_code \<noteq> 200 then Inl (HTTPException 500 ''ICD-11 token request failed'')
          else
            (case body of
               Inl e \<Rightarrow> Inl e
             | Inr token_data \<Rightarrow>
                 (case py_get token_data ''access_token'' JNull of
                    Inl e \<Rightarrow> Inl e
                  | Inr token \<Rightarrow>
                      if truthy token then Inr token
                      else Inl (HTTPException 500 ''ICD-11 token missing in response''))))"

definition get_token :: "icd11_env \<Rightarrow> icd11_state \<Rightarrow> (exn + json) \<times> icd11_state" where
  "get_token env st =
     (if truthy (token_cache st) then (Inr (token_cache st), st)
      else if missing (client_id env) \<or> missing (client_secret env) then
        (Inl (HTTPException 500 ''ICD-11 credentials not configured''), st)
      else
        (case token_exchange (token_post env (token_posts st)) of
           Inl e \<Rightarrow>
             (Inl (if e = RequestError
                   then HTTPException 500 ''Network error connecting to ICD-11'' else e),
              st\<lparr>token_posts := Suc (token_posts st)\<rparr>)
         | Inr token \<Rightarrow>
             (Inr token, st\<lparr>token_cache := token, token_posts := Suc (token_posts st)\<rparr>)))"

text \<open>Lines 102-107: the entity list of a response document.\<close>

definition select_entities :: "(string \<times> json) list \<Rightarrow> json" where
  "select_entities data =
     py_or (py_or (py_or (dict_get data ''destinationEntities'' (JArr []))
                         (dict_get data ''entities'' (JArr [])))
                  (dict_get data ''searchResults'' (JArr [])))
           (dict_get data ''results'' (JArr []))"

text \<open>Lines 111-115: the title of a record.\<close>

definition resolve_title :: "(string \<times> json) list \<Rightarrow> json" where
  "resolve_title item =
     (case dict_get item ''title'' JNull of
        JObj t \<Rightarrow> dict_get t ''@value'' (JStr '''')
      | _ \<Rightarrow> py_or (dict_get item ''title'' (JStr '''')) (dict_get item ''name'' (JStr '''')))"

text \<open>Lines 118-122: the definition of a record.\<close>

definition resolve_definition :: "(string \<times> json) list \<Rightarrow> json" where
  "resolve_definition item =
     (case dict_get item ''definition'' JNull of
        JObj d \<Rightarrow> dict_get d ''@value'' (JStr '''')
      | _ \<Rightarrow> dict_get item ''definition'' (JStr ''''))"

text \<open>Lines 125-132: the synonyms of a record.\<close>

fun synonym_entry :: "(json \<Rightarrow> string) \<Rightarrow> json \<Rightarrow> exn + json" where
  "synonym_entry str (JObj syn) = py_get (dict_get syn ''label'' (JObj [])) ''@value'' (JStr '''')"
| "synonym_entry str syn = Inr (JStr (str syn))"

fun collect_synonyms :: "(json \<Rightarrow> string) \<Rightarrow> json list \<Rightarrow> json list \<Rightarrow> exn + json list" where
  "collect_synonyms str [] synonyms = Inr synonyms"
| "collect_synonyms str (syn # syns) synonyms =
     (case synonym_entry str syn of
        Inl e \<Rightarrow> Inl e
      | Inr v \<Rightarrow> collect_synonyms str syns (synonyms @ [v]))"

definition extract_synonyms :: "(json \<Rightarrow> string) \<Rightarrow> (string \<times> json) list \<Rightarrow> exn + json list" where
  "extract_synonyms str item =
     (case py_or (dict_get item ''synonym'' (JArr [])) (dict_get item ''synonyms'' (JArr [])) of
        JArr syns \<Rightarrow> collect_synonyms str syns []
      | _ \<Rightarrow> Inr [])"

text \<open>Lines 135-144: the constructor call.\<close>

definition entity_term :: "(string \<times> json) list \<Rightarrow> json list \<Rightarrow> icd11_term" where
  "entity_term item synonyms =
     \<lparr> icd_id = py_or (dict_get item ''id'' (JStr '''')) (dict_get item ''@id'' (JStr '''')),
       icd_uri = py_or (py_or (dict_get item ''uri'' (JStr ''''))
                              (dict_get item ''id'' (JStr '''')))
                       (dict_get item ''@id'' (JStr '''')),
       icd_code = py_or (dict_get item ''theCode'' (JStr '''')) (dict_get item ''code'' (JStr '''')),
       icd_title = resolve_title item,
       icd_definition = resolve_definition item,
       icd_parent = dict_get item ''parent'' (JStr ''''),
       icd_children = dict_get item ''children'' (JArr []),
       icd_synonyms = synonyms \<rparr>"

definition ICD11Term :: "icd11_env \<Rightarrow> icd11_term \<Rightarrow> exn + icd11_term" where
  "ICD11Term env args = (if ICD11Term_valid env args then Inr args else Inl ValidationError)"

text \<open>
  One iteration of the loop of lines 109-145: an exception, no record (the title is
  falsy), or the record to append.
\<close>

fun normalize_item :: "icd11_env \<Rightarrow> json \<Rightarrow> exn + icd11_term option" where
  "normalize_item env (JObj item) =
     (case extract_synonyms (py_str env) item of
        Inl e \<Rightarrow> Inl e
      | Inr synonyms \<Rightarrow>
          if truthy (resolve_title item) then
            (case ICD11Term env (entity_term item synonyms) of
               Inl e \<Rightarrow> Inl e
             | Inr icd_term \<Rightarrow> Inr (Some icd_term))
          else Inr None)"
| "normalize_item env _ = Inl AttributeError"

text \<open>
  The loop itself, on the list \<^verbatim>\<open>results\<close>, which lives outside the loop over
  the endpoints: what was appended before an exception stays appended.
\<close>

fun normalize_entities ::
  "icd11_env \<Rightarrow> json list \<Rightarrow> icd11_term list \<Rightarrow> exn option \<times> icd11_term list" where
  "normalize_entities env [] results = (None, results)"
| "normalize_entities env (item # items) results =
     (case normalize_item env item of
        Inl e \<Rightarrow> (Some e, results)
      | Inr None \<Rightarrow> normalize_entities env items results
      | Inr (Some icd_term) \<Rightarrow> normalize_entities env items (results @ [icd_term]))"

text \<open>Lines 98-145: the branch taken on status 200, up to the \<^verbatim>\<open>break\<close>.\<close>

definition process_response ::
  "icd11_env \<Rightarrow> exn + json \<Rightarrow> icd11_term list \<Rightarrow> exn option \<times> icd11_term list" where
  "process_response env body results =
     (case body of
        Inl e \<Rightarrow> (Some e, results)
      | Inr data \<Rightarrow>
          (case data of
             JObj d \<Rightarrow>
               (case py_iter (select_entities d) of
                  Inl e \<Rightarrow> (Some e, results)
                | Inr items \<Rightarrow> normalize_entities env items results)
           | _ \<Rightarrow> (Some AttributeError, results)))"

definition endpoints_to_try :: "string \<Rightarrow> string list" where
  "endpoints_to_try base =
     [base @ ''/mms/search'',
      base @ ''/search'',
      base @ ''/mms/flexisearch'',
      base @ ''/release/11/2024-01/mms/search'']"

definition flexi_param :: "bool \<Rightarrow> string" where
  "flexi_param use_flexisearch = (if use_flexisearch then ''true'' else ''false'')"

text \<open>
  Lines 75-87 and 95: the request sent to one URL, for the stripped query
  \<^verbatim>\<open>query.strip()\<close>.
\<close>

definition request_for :: "string \<Rightarrow> bool \<Rightarrow> json \<Rightarrow> string \<Rightarrow> search_request" where
  "request_for q use_flexisearch token url =
     \<lparr> req_url = url, req_q = q,
       req_useFlexisearch = flexi_param use_flexisearch, req_token = token \<rparr>"

definition tried :: "string \<Rightarrow> string list \<times> icd11_term list \<Rightarrow> string list \<times> icd11_term list" where
  "tried url r = (url # fst r, snd r)"

text \<open>
  The loop over the endpoints (lines 92-157). It returns the URLs requested (the
  ``Trying ICD-11 endpoint'' log lines, in order) and the list \<^verbatim>\<open>results\<close>. Both
  handlers and the non-200 branch go on to the next URL.
\<close>

fun probe ::
  "icd11_env \<Rightarrow> string \<Rightarrow> bool \<Rightarrow> json \<Rightarrow> string list \<Rightarrow> icd11_term list
     \<Rightarrow> string list \<times> icd11_term list" where
  "probe env query use_flexisearch token [] results = ([], results)"
| "probe env query use_flexisearch token (url # urls) results =
     (case search_get env (request_for (py_strip env query) use_flexisearch token url) of
        Raises e \<Rightarrow> tried url (probe env query use_flexisearch token urls results)
      | Response status_code body \<Rightarrow>
          if status_code = 200 then
            (case process_response env body results of
               (None, results') \<Rightarrow> ([url], results')
             | (Some e, results') \<Rightarrow>
                 tried url (probe env query use_flexisearch token urls results'))
          else tried url (probe env query use_flexisearch token urls results))"

definition search_icd11 ::
  "icd11_env \<Rightarrow> string \<Rightarrow> bool \<Rightarrow> icd11_state \<Rightarrow> icd11_term list \<times> icd11_state" where
  "search_icd11 env query use_flexisearch st =
     (if query = [] \<or> py_strip env query = [] then ([], st)
      else
        (case get_token env st of
           (Inl e, st') \<Rightarrow> ([], st')
         | (Inr token, st') \<Rightarrow>
             (snd (probe env query use_flexisearch token (endpoints_to_try (base_url env)) []),
              st')))"

section \<open>The orchestrator: \<^verbatim>\<open>search_terms\<close>\<close>

text \<open>
  Modelled from the spec: the enumeration \<^verbatim>\<open>SearchType\<close> of
  \<^verbatim>\<open>app.api.models.common\<close> is not among the sources; its three members and their
  values are those of the inbound interface.
\<close>

datatype SearchType = NAMASTE | ICD11 | BOTH

fun source_value :: "SearchType \<Rightarrow> string" where
  "source_value NAMASTE = ''namaste''"
| "source_value ICD11 = ''icd11''"
| "source_value BOTH = ''both''"

record search_response =
  resp_query :: string
  resp_source :: string
  namaste_results :: "namaste_term list"
  icd11_results :: "icd11_term list"
  total_results :: nat
  search_time_ms :: int
  status :: string
  message :: "string option"

text \<open>Lines 37-51: the guard around the local search.\<close>

definition guard_namaste :: "exn + namaste_term list \<Rightarrow> namaste_term list" where
  "guard_namaste r =
     (case r of
        Inr rs \<Rightarrow> rs
      | Inl e \<Rightarrow>
          (case e of
             HTTPException status_code detail \<Rightarrow> (if status_code = 404 then [] else [])
           | _ \<Rightarrow> []))"

text \<open>Lines 55-62: the guard around the remote search.\<close>

definition guard_icd11 :: "exn + icd11_term list \<Rightarrow> icd11_term list" where
  "guard_icd11 r = (case r of Inr rs \<Rightarrow> rs | Inl e \<Rightarrow> [])"

definition no_results_message :: "string \<Rightarrow> string" where
  "no_results_message q =
     ''No results found for '' @ [CHR 0x27] @ q @ [CHR 0x27] @ '' in the selected sources''"

text \<open>
  The endpoint function. The two services are attributes of
  \<^verbatim>\<open>MappingService\<close> (not among the sources), so they are parameters: the local
  search gives a list or raises, the remote search also changes the state of its
  service. \<open>fault\<close> is the text of an exception raised by the merge step itself
  (lines 64-78: lengths, clock, logger), outside the two guards; \<open>elapsed\<close> is the
  time the clock measures, in milliseconds.
\<close>

definition search_terms ::
  "(string \<Rightarrow> string option \<Rightarrow> exn + namaste_term list)
     \<Rightarrow> (string \<Rightarrow> 's \<Rightarrow> (exn + icd11_term list) \<times> 's)
     \<Rightarrow> string option \<Rightarrow> int
     \<Rightarrow> string \<Rightarrow> SearchType \<Rightarrow> string option \<Rightarrow> 's \<Rightarrow> search_response \<times> 's" where
  "search_terms namaste_search icd11_search fault elapsed q source ayush_system st =
     (let local = (if source \<in> set [NAMASTE, BOTH]
                   then guard_namaste (namaste_search q ayush_system) else []);
          remote = (if source \<in> set [ICD11, BOTH]
                    then (guard_icd11 (fst (icd11_search q st)), snd (icd11_search q st))
                    else ([], st));
          total = length local + length (fst remote)
      in case fault of
           None \<Rightarrow>
             (\<lparr> resp_query = q, resp_source = source_value source,
                namaste_results = local, icd11_results = fst remote,
                total_results = total, search_time_ms = elapsed,
                status = (if total = 0 then ''no_results'' else ''success''),
                message = (if total = 0 then Some (no_results_message q) else None) \<rparr>,
              snd remote)
         | Some text \<Rightarrow>
             (\<lparr> resp_query = q, resp_source = source_value source,
                namaste_results = [], icd11_results = [],
                total_results = 0, search_time_ms = elapsed,
                status = ''error'',
                message = Some (''Search failed: '' @ text) \<rparr>,
              snd remote))"

text \<open>
  The endpoint with the two services of this repository: the catalog file gives
  \<open>load\<close>, and the remote search is called with its default
  \<^verbatim>\<open>use_flexisearch=True\<close>.
\<close>

definition search_terms_app ::
  "(namaste_term \<Rightarrow> bool) \<Rightarrow> (string \<Rightarrow> string) \<Rightarrow> exn + json \<Rightarrow> icd11_env
     \<Rightarrow> string option \<Rightarrow> int
     \<Rightarrow> string \<Rightarrow> SearchType \<Rightarrow> string option \<Rightarrow> icd11_state
     \<Rightarrow> search_response \<times> icd11_state" where
  "search_terms_app valid lower load env fault elapsed q source ayush_system st =
     search_terms
       (\<lambda>query system. search_namaste valid lower query system load)
       (\<lambda>query s. (Inr (fst (search_icd11 env query True s)), snd (search_icd11 env query True s)))
       fault elapsed q source ayush_system st"

section \<open>Notions used in the statements\<close>

subsection \<open>Catalog items\<close>

fun str_of :: "json \<Rightarrow> string" where
  "str_of (JStr s) = s"
| "str_of _ = []"

fun is_str :: "json \<Rightarrow> bool" where
  "is_str (JStr s) = True"
| "is_str _ = False"

text \<open>The two fields line 24 and line 25 read from a catalog item, with their defaults.\<close>

definition term_of :: "(string \<times> json) list \<Rightarrow> json" where
  "term_of item = dict_get item ''term'' (JStr '''')"

definition system_of :: "(string \<times> json) list \<Rightarrow> json" where
  "system_of item = dict_get item ''system'' (JStr '''')"

text \<open>The record the loop appends for an item it selects.\<close>

definition catalog_record :: "(string \<times> json) list \<Rightarrow> namaste_term" where
  "catalog_record item = item_term item (term_of item) (system_of item)"

text \<open>An item on which neither \<^verbatim>\<open>term.lower()\<close> nor \<^verbatim>\<open>system.lower()\<close> can raise.\<close>

definition well_formed :: "(string \<times> json) list \<Rightarrow> bool" where
  "well_formed item = (is_str (term_of item) \<and> is_str (system_of item))"

text \<open>The condition of line 28 and the conjunction of lines 27 and 28, on such an item.\<close>

definition passes_filter ::
  "(string \<Rightarrow> string) \<Rightarrow> string option \<Rightarrow> (string \<times> json) list \<Rightarrow> bool" where
  "passes_filter lower ayush_system item =
     (case ayush_system of
        None \<Rightarrow> True
      | Some f \<Rightarrow> f = [] \<or> lower (str_of (system_of item)) = lower f)"

definition item_selected ::
  "(string \<Rightarrow> string) \<Rightarrow> string \<Rightarrow> string option \<Rightarrow> (string \<times> json) list \<Rightarrow> bool" where
  "item_selected lower query ayush_system item =
     (str_in (lower query) (lower (str_of (term_of item))) \<and>
      passes_filter lower ayush_system item)"

text \<open>
  The match rule in the specification's words: the query is a case-insensitive
  substring of the display name and, when a category filter is given, the system equals
  the filter case-insensitively. Two strings are equal case-insensitively when
  \<^verbatim>\<open>str.lower\<close> makes them equal.
\<close>

definition claimed_match ::
  "(string \<Rightarrow> string) \<Rightarrow> string \<Rightarrow> string option \<Rightarrow> (string \<times> json) list \<Rightarrow> bool" where
  "claimed_match lower query category_filter item =
     (sublist (lower query) (lower (str_of (term_of item))) \<and>
      (case category_filter of
         None \<Rightarrow> True
       | Some f \<Rightarrow> lower (str_of (system_of item)) = lower f))"

text \<open>The filter the code applies: the empty string counts as no filter (line 28).\<close>

definition effective_filter :: "string option \<Rightarrow> string option" where
  "effective_filter ayush_system = (if ayush_system = Some [] then None else ayush_system)"

subsection \<open>The builtins on ASCII strings\<close>

text \<open>
  On a string of ASCII characters \<^verbatim>\<open>str.lower()\<close> replaces the letters A to Z by
  a to z, and \<^verbatim>\<open>str.strip()\<close> removes the leading and trailing characters 9 to 13
  and 28 to 32. The samples below hold ASCII strings only.
\<close>

definition ascii_lower_char :: "char \<Rightarrow> char" where
  "ascii_lower_char c =
     (case map_of (zip ''ABCDEFGHIJKLMNOPQRSTUVWXYZ'' ''abcdefghijklmnopqrstuvwxyz'') c of
        None \<Rightarrow> c
      | Some l \<Rightarrow> l)"

definition ascii_lower :: "string \<Rightarrow> string" where
  "ascii_lower s = map ascii_lower_char s"

definition ascii_space :: "char \<Rightarrow> bool" where
  "ascii_space c =
     (let n = (of_char c :: nat) in (9 \<le> n \<and> n \<le> 13) \<or> (28 \<le> n \<and> n \<le> 32))"

definition ascii_strip :: "string \<Rightarrow> string" where
  "ascii_strip s = rev (dropWhile ascii_space (rev (dropWhile ascii_space s)))"

subsection \<open>A sample catalog\<close>

definition fever_item :: "(string \<times> json) list" where
  "fever_item =
     [(''id'', JStr ''N1''), (''term'', JStr ''Fever''), (''system'', JStr ''Ayurveda'')]"

definition asana_item :: "(string \<times> json) list" where
  "asana_item =
     [(''id'', JStr ''N2''), (''term'', JStr ''Hay fever pose''), (''system'', JStr ''Yoga'')]"

definition sample_catalog :: json where
  "sample_catalog = JObj [(''results'', JArr [JObj fever_item, JObj asana_item])]"

subsection \<open>Entities of a response\<close>

text \<open>
  The entity list in the specification's words: the value under the first key, in the
  order given, that is present in the document, whatever the value; the empty list when
  none is.
\<close>

definition first_present_entities :: "(string \<times> json) list \<Rightarrow> json" where
  "first_present_entities data =
     (case find (\<lambda>k. map_of data k \<noteq> None)
             [''destinationEntities'', ''entities'', ''searchResults'', ''results''] of
        None \<Rightarrow> JArr []
      | Some k \<Rightarrow> dict_get data k (JArr []))"

fun is_obj :: "json \<Rightarrow> bool" where
  "is_obj (JObj d) = True"
| "is_obj _ = False"

text \<open>
  A record on which the loop body raises nothing: its synonyms are extracted and, when
  it has a title, the constructor accepts it. \<open>entity_record\<close> is what the loop
  appends for it.
\<close>

definition synonyms_of :: "icd11_env \<Rightarrow> (string \<times> json) list \<Rightarrow> json list" where
  "synonyms_of env item =
     (case extract_synonyms (py_str env) item of Inl e \<Rightarrow> [] | Inr synonyms \<Rightarrow> synonyms)"

definition entity_record :: "icd11_env \<Rightarrow> (string \<times> json) list \<Rightarrow> icd11_term" where
  "entity_record env item = entity_term item (synonyms_of env item)"

definition titled :: "(string \<times> json) list \<Rightarrow> bool" where
  "titled item = truthy (resolve_title item)"

definition parses :: "icd11_env \<Rightarrow> (string \<times> json) list \<Rightarrow> bool" where
  "parses env item =
     (case extract_synonyms (py_str env) item of
        Inl e \<Rightarrow> False
      | Inr synonyms \<Rightarrow>
          if titled item then ICD11Term_valid env (entity_term item synonyms) else True)"

definition has_title :: "icd11_term \<Rightarrow> bool" where
  "has_title t = truthy (icd_title t)"

subsection \<open>Endpoints\<close>

text \<open>
  What one pass of the loop over the endpoints does with the list \<open>results\<close>.
  The loop goes on to the next URL (\<open>skips\<close>) when the request raises, the status
  is not 200, or the processing of the 200 response raises; \<open>left_by\<close> is the list
  after the pass, with whatever the processing appended before it raised. The loop stops
  (\<open>answers\<close>) when the status is 200 and the processing reaches the
  \<^verbatim>\<open>break\<close>.
\<close>

definition skips :: "icd11_env \<Rightarrow> icd11_term list \<Rightarrow> search_request \<Rightarrow> bool" where
  "skips env results req =
     (case search_get env req of
        Raises e \<Rightarrow> True
      | Response status_code body \<Rightarrow>
          if status_code = 200 then
            (case process_response env body results of
               (None, results') \<Rightarrow> False
             | (Some e, results') \<Rightarrow> True)
          else True)"

definition left_by :: "icd11_env \<Rightarrow> icd11_term list \<Rightarrow> search_request \<Rightarrow> icd11_term list" where
  "left_by env results req =
     (case search_get env req of
        Raises e \<Rightarrow> results
      | Response status_code body \<Rightarrow>
          if status_code = 200 then snd (process_response env body results) else results)"

definition answers ::
  "icd11_env \<Rightarrow> icd11_term list \<Rightarrow> search_request \<Rightarrow> icd11_term list \<Rightarrow> bool" where
  "answers env results req results' =
     (case search_get env req of
        Raises e \<Rightarrow> False
      | Response status_code body \<Rightarrow>
          status_code = 200 \<and> process_response env body results = (None, results'))"

text \<open>
  A run of URLs, each skipped in its turn, the list being handed from one pass to the
  next; and the list after the run. \<open>req\<close> builds the request for a URL.
\<close>

fun skips_all ::
  "icd11_env \<Rightarrow> (string \<Rightarrow> search_request) \<Rightarrow> string list \<Rightarrow> icd11_term list \<Rightarrow> bool" where
  "skips_all env req [] results = True"
| "skips_all env req (url # urls) results =
     (skips env results (req url) \<and> skips_all env req urls (left_by env results (req url)))"

fun left_after ::
  "icd11_env \<Rightarrow> (string \<Rightarrow> search_request) \<Rightarrow> string list \<Rightarrow> icd11_term list
     \<Rightarrow> icd11_term list" where
  "left_after env req [] results = results"
| "left_after env req (url # urls) results =
     left_after env req urls (left_by env results (req url))"

subsection \<open>Successive token requests\<close>

fun get_token_times ::
  "icd11_env \<Rightarrow> nat \<Rightarrow> icd11_state \<Rightarrow> (exn + json) list \<times> icd11_state" where
  "get_token_times env 0 st = ([], st)"
| "get_token_times env (Suc n) st =
     (case get_token env st of
        (r, st') \<Rightarrow>
          (case get_token_times env n st' of
             (rs, st'') \<Rightarrow> (r # rs, st'')))"

subsection \<open>A sample remote service\<close>

text \<open>
  The token endpoint of the sample hands out a different token at every request. Its
  search endpoints are given by the function \<open>respond\<close> on the URL.
\<close>

fun sample_str :: "json \<Rightarrow> string" where
  "sample_str (JStr s) = s"
| "sample_str JNull = ''None''"
| "sample_str (JBool b) = (if b then ''True'' else ''False'')"
| "sample_str _ = ''''"

definition sample_env :: "(string \<Rightarrow> http_outcome) \<Rightarrow> icd11_env" where
  "sample_env respond =
     \<lparr> base_url = ''https://id.who.int/icd'',
       client_id = Some ''client'',
       client_secret = Some ''secret'',
       token_post = (\<lambda>n. Response 200
          (Inr (JObj [(''access_token'', JStr (''token'' @ replicate n (CHR ''+'')))]))),
       search_get = (\<lambda>req. respond (req_url req)),
       py_strip = ascii_strip,
       py_str = sample_str,
       ICD11Term_valid = (\<lambda>t. True) \<rparr>"

definition cholera_item :: "(string \<times> json) list" where
  "cholera_item = [(''title'', JObj [(''@value'', JStr ''Cholera'')]), (''id'', JStr ''1'')]"

definition typhoid_item :: "(string \<times> json) list" where
  "typhoid_item = [(''name'', JStr ''Typhoid fever''), (''theCode'', JStr ''1A07'')]"

definition untitled_item :: "(string \<times> json) list" where
  "untitled_item = [(''id'', JStr ''3''), (''definition'', JStr ''No title here'')]"

text \<open>Endpoint 1 answers 500 and endpoint 2 answers 200 with one entity.\<close>

definition second_answers :: "string \<Rightarrow> http_outcome" where
  "second_answers url =
     (if url = ''https://id.who.int/icd/mms/search'' then Response 500 (Inl JSONDecodeError)
      else if url = ''https://id.who.int/icd/search''
      then Response 200 (Inr (JObj [(''destinationEntities'', JArr [JObj cholera_item])]))
      else Raises RequestError)"

text \<open>
  Endpoint 1 answers 200 with two records, the second with a synonym whose label is a
  string and not an object; endpoint 2 answers 200 with one entity.
\<close>

definition flat_label_item :: "(string \<times> json) list" where
  "flat_label_item =
     [(''title'', JStr ''Plague''), (''synonym'', JArr [JObj [(''label'', JStr ''Pest'')]])]"

definition first_breaks :: "string \<Rightarrow> http_outcome" where
  "first_breaks url =
     (if url = ''https://id.who.int/icd/mms/search''
      then Response 200
             (Inr (JObj [(''destinationEntities'', JArr [JObj cholera_item, JObj flat_label_item])]))
      else if url = ''https://id.who.int/icd/search''
      then Response 200 (Inr (JObj [(''destinationEntities'', JArr [JObj typhoid_item])]))
      else Raises RequestError)"

text \<open>
  Endpoint 1 answers 200 with two records that have a title, the first with a synonym
  whose label is a string; the other endpoints cannot be reached.
\<close>

definition label_first :: "string \<Rightarrow> http_outcome" where
  "label_first url =
     (if url = ''https://id.who.int/icd/mms/search''
      then Response 200
             (Inr (JObj [(''destinationEntities'', JArr [JObj flat_label_item, JObj cholera_item])]))
      else Raises RequestError)"

text \<open>A document with an empty list under the first key and an entity under the second.\<close>

definition empty_first_key :: "(string \<times> json) list" where
  "empty_first_key =
     [(''destinationEntities'', JArr []), (''entities'', JArr [JObj cholera_item])]"

definition plague_item :: "(string \<times> json) list" where
  "plague_item =
     [(''title'', JStr ''Plague''), (''name'', JStr ''Pest''),
      (''synonym'',
       JArr [JStr ''Black death'', JObj [(''label'', JObj [(''@value'', JStr ''Pestis'')])]])]"

section \<open>Facts about the primitives\<close>

lemma starts_with_prefix: "starts_with xs ys = prefix xs ys"
  by (induction xs ys rule: starts_with.induct) simp_all

lemma str_in_sublist: "str_in xs ys = sublist xs ys"
proof (induction ys)
  case Nil
  show ?case by simp
next
  case (Cons y ys)
  show ?case
  proof (cases xs)
    case Nil
    then show ?thesis by simp
  next
    case (Cons a as)
    with Cons.IH show ?thesis
      by (simp add: starts_with_prefix sublist_Cons_right del: starts_with.simps)
  qed
qed

section \<open>The loop of the local resolver\<close>

lemma scan_item_well_formed:
  assumes "well_formed item"
  shows "scan_item valid lower query ayush_system (JObj item) results =
           (if item_selected lower query ayush_system item
            then (if valid (catalog_record item) then Inr (results @ [catalog_record item])
                  else Inl ValidationError)
            else Inr results)"
proof -
  from assms obtain t s where t: "dict_get item ''term'' (JStr '''') = JStr t"
    and s: "dict_get item ''system'' (JStr '''') = JStr s"
    unfolding well_formed_def term_of_def system_of_def
    by (metis is_str.elims(2))
  show ?thesis
    by (cases ayush_system)
       (simp_all add: t s item_selected_def passes_filter_def term_of_def system_of_def
          catalog_record_def system_check_def NAMASTETerm_def)
qed

lemma scan_catalog_well_formed:
  assumes "list_all well_formed items"
    and "list_all valid (map catalog_record (filter (item_selected lower query ayush_system) items))"
  shows "scan_catalog valid lower query ayush_system (map JObj items) results =
           Inr (results @ map catalog_record (filter (item_selected lower query ayush_system) items))"
  using assms
proof (induction items arbitrary: results)
  case Nil
  show ?case by simp
next
  case (Cons item items)
  from Cons.prems(1) have wf: "well_formed item" and wfs: "list_all well_formed items"
    by simp_all
  show ?case
  proof (cases "item_selected lower query ayush_system item")
    case True
    with Cons.prems(2) have v: "valid (catalog_record item)"
      and vs: "list_all valid (map catalog_record (filter (item_selected lower query ayush_system) items))"
      by simp_all
    show ?thesis
      using True v Cons.IH [OF wfs vs]
      by (simp add: scan_item_well_formed [OF wf] del: scan_item.simps)
  next
    case False
    with Cons.prems(2)
    have vs: "list_all valid (map catalog_record (filter (item_selected lower query ayush_system) items))"
      by simp
    show ?thesis
      using False Cons.IH [OF wfs vs]
      by (simp add: scan_item_well_formed [OF wf] del: scan_item.simps)
  qed
qed


lemma item_selected_claimed:
  "item_selected lower query ayush_system = claimed_match lower query (effective_filter ayush_system)"
  by (rule ext)
     (auto simp: item_selected_def claimed_match_def passes_filter_def effective_filter_def
        str_in_sublist split: option.splits)



lemma search_namaste_never_404:
  "search_namaste valid lower query ayush_system load \<noteq> Inl (HTTPException 404 detail)"
  by (simp add: search_namaste_def NAMASTETerm_def split: sum.splits)

lemma list_all_True: "list_all (\<lambda>t. True) xs"
  by (simp add: list_all_iff)

lemma lower_samples:
  "ascii_lower [] = []"
  "ascii_lower ''fev'' = ''fev''"
  "ascii_lower ''cough'' = ''cough''"
  "ascii_lower ''Fever'' = ''fever''"
  "ascii_lower ''Hay fever pose'' = ''hay fever pose''"
  "ascii_lower ''Ayurveda'' = ''ayurveda''"
  "ascii_lower ''ayurveda'' = ''ayurveda''"
  "ascii_lower ''Yoga'' = ''yoga''"
  "ascii_lower ''yoga'' = ''yoga''"
  by (simp_all add: ascii_lower_def ascii_lower_char_def)

lemmas eval_local = lower_samples dict_get_def term_of_def system_of_def
  well_formed_def catalog_record_def item_term_def claimed_match_def effective_filter_def
  fever_item_def asana_item_def sample_catalog_def sublist_code passes_filter_def
  NAMASTETerm_def system_check_def

section \<open>The claims on the local resolver\<close>

text \<open>
  C7, as amended. On a catalog whose items are well formed and whose selected records
  pass validation, the loop of lines 23-40 returns, in catalog order, the records of
  exactly the items for which the query is a case-insensitive substring of the display
  name and, when a non-empty category filter is given, the system equals the filter
  case-insensitively. An empty filter string is treated as no filter. The statement
  holds for every function \<open>lower\<close>, so for \<^verbatim>\<open>str.lower\<close>.
\<close>

theorem local_match_rule:
  assumes "list_all well_formed items"
    and "list_all valid
           (map catalog_record
              (filter (claimed_match lower query (effective_filter ayush_system)) items))"
  shows "scan_catalog valid lower query ayush_system (map JObj items) [] =
           Inr (map catalog_record
                  (filter (claimed_match lower query (effective_filter ayush_system)) items))"
  using scan_catalog_well_formed [of items valid lower query ayush_system "[]"] assms
  by (simp add: item_selected_claimed)

text \<open>
  The query ``fev'' matches the term ``Fever''; the system ``Ayurveda'' matches the filter
  ``ayurveda'' and not the filter ``Yoga''.
\<close>

theorem local_match_rule_witness:
  "list_all well_formed [fever_item, asana_item] \<and>
   scan_catalog (\<lambda>t. True) ascii_lower ''fev'' (Some ''ayurveda'') (map JObj [fever_item, asana_item]) [] =
     Inr [catalog_record fever_item] \<and>
   scan_catalog (\<lambda>t. True) ascii_lower ''fev'' (Some ''Yoga'') (map JObj [fever_item, asana_item]) [] =
     Inr [catalog_record asana_item] \<and>
   scan_catalog (\<lambda>t. True) ascii_lower ''fev'' None (map JObj [fever_item, asana_item]) [] =
     Inr [catalog_record fever_item, catalog_record asana_item]"
proof -
  have wf: "list_all well_formed [fever_item, asana_item]"
    by (simp add: eval_local)
  show ?thesis
    using wf
      local_match_rule [OF wf list_all_True, of ascii_lower "''fev''" "Some ''ayurveda''"]
      local_match_rule [OF wf list_all_True, of ascii_lower "''fev''" "Some ''Yoga''"]
      local_match_rule [OF wf list_all_True, of ascii_lower "''fev''" None]
    by (simp add: eval_local)
qed

text \<open>
  C7 as stated fails when the filter is given as the empty string: the record of system
  ``Ayurveda'' is selected although its system does not equal the filter.
\<close>

theorem local_match_rule_counterexample:
  "scan_catalog (\<lambda>t. True) ascii_lower ''fev'' (Some '''') [JObj fever_item] [] =
     Inr [catalog_record fever_item] \<and>
   \<not> claimed_match ascii_lower ''fev'' (Some '''') fever_item"
  by (simp add: eval_local)



text \<open>
  C9, as amended. When the catalog file is missing (opening it raises
  FileNotFoundError), the search returns exactly one record, the mock record, whose term
  is the query text, provided the record passes validation. Every other failure to read
  or parse the file raises the fatal error of line 67 instead.
\<close>

theorem missing_catalog_fallback:
  "(valid (fallback_term query) \<longrightarrow>
      search_namaste valid lower query ayush_system (Inl FileNotFoundError) =
        Inr [fallback_term query] \<and>
      nt_term (fallback_term query) = JStr query) \<and>
   (e \<noteq> FileNotFoundError \<longrightarrow>
      search_namaste valid lower query ayush_system (Inl e) =
        Inl (HTTPException 500 ''NAMASTE search failed''))"
  by (simp add: search_namaste_def search_namaste_try_def NAMASTETerm_def fallback_term_def)

theorem missing_catalog_fallback_witness:
  "search_namaste (\<lambda>t. True) ascii_lower ''fever'' None (Inl FileNotFoundError) =
     Inr [fallback_term ''fever''] \<and>
   nt_term (fallback_term ''fever'') = JStr ''fever'' \<and>
   search_namaste (\<lambda>t. True) ascii_lower ''fever'' None (Inl JSONDecodeError) =
     Inl (HTTPException 500 ''NAMASTE search failed'')"
  using missing_catalog_fallback [of "\<lambda>t. True" "''fever''" ascii_lower None JSONDecodeError]
  by simp

text \<open>
  C9 as stated fails for a file that exists and cannot be read: PermissionError is not
  a FileNotFoundError, so the search raises and returns no mock record.
\<close>

theorem missing_catalog_fallback_counterexample:
  "search_namaste (\<lambda>t. True) ascii_lower ''fever'' None (Inl PermissionError) =
     Inl (HTTPException 500 ''NAMASTE search failed'') \<and>
   search_namaste (\<lambda>t. True) ascii_lower ''fever'' None (Inl PermissionError) \<noteq>
     Inr [fallback_term ''fever'']"
  by (simp add: search_namaste_def search_namaste_try_def)

text \<open>
  C2. On a catalog that loads and holds no match, the body of the \<^verbatim>\<open>try\<close> raises
  the HTTPException with status 404, but the handler of line 65 catches it, as it
  catches every \<^verbatim>\<open>Exception\<close>, and the method raises status 500: the same
  exception as for a file that does not parse.
\<close>

theorem not_found_reported_as_fatal:
  "search_namaste_try (\<lambda>t. True) ascii_lower ''cough'' None (Inr sample_catalog) =
     Inl (HTTPException 404 (not_found_detail ''cough'')) \<and>
   search_namaste (\<lambda>t. True) ascii_lower ''cough'' None (Inr sample_catalog) =
     Inl (HTTPException 500 ''NAMASTE search failed'') \<and>
   search_namaste (\<lambda>t. True) ascii_lower ''cough'' None (Inl JSONDecodeError) =
     Inl (HTTPException 500 ''NAMASTE search failed'')"
  by (simp add: search_namaste_def search_namaste_try_def eval_local)

section \<open>The claims on the remote resolver\<close>

subsection \<open>The token cache\<close>

lemma get_token_cached:
  "truthy (token_cache st) \<Longrightarrow> get_token env st = (Inr (token_cache st), st)"
  by (simp add: get_token_def)

lemma token_exchange_truthy: "token_exchange out = Inr token \<Longrightarrow> truthy token"
  by (auto simp: token_exchange_def split: http_outcome.splits if_splits sum.splits)

lemma get_token_success:
  assumes "get_token env st = (Inr token, st')"
  shows "truthy token \<and> token_cache st' = token"
  using assms
  by (auto simp: get_token_def split: if_splits sum.splits dest: token_exchange_truthy)

lemma get_token_times_cached:
  "truthy (token_cache st) \<Longrightarrow>
   get_token_times env n st = (replicate n (Inr (token_cache st)), st)"
  by (induction n) (simp_all add: get_token_cached)

lemma search_icd11_cached:
  "truthy (token_cache st) \<Longrightarrow> snd (search_icd11 env query use_flexisearch st) = st"
  by (simp add: search_icd11_def get_token_cached)

text \<open>
  C6. After a call of \<^verbatim>\<open>get_token\<close> that returns a token, every later call
  returns that token and leaves the state as it is, the count of token requests
  included, whatever the token endpoint would answer and whatever the credentials are;
  so do any number of calls in a row, and a search does not change the state either:
  nothing resets the cache.
\<close>

theorem token_memoized:
  assumes "get_token env st = (Inr token, st')"
  shows "get_token env' st' = (Inr token, st') \<and>
         get_token_times env' n st' = (replicate n (Inr token), st') \<and>
         snd (search_icd11 env' query use_flexisearch st') = st'"
proof -
  from get_token_success [OF assms] have t: "truthy (token_cache st')" and c: "token_cache st' = token"
    by simp_all
  show ?thesis
    using get_token_cached [OF t, of env'] get_token_times_cached [OF t, of env' n]
      search_icd11_cached [OF t, of env' query use_flexisearch] c
    by simp
qed

theorem token_memoized_witness:
  "get_token (sample_env second_answers) initial_state =
     (Inr (JStr ''token''), \<lparr> token_cache = JStr ''token'', token_posts = 1 \<rparr>) \<and>
   token_post (sample_env second_answers) 1 =
     Response 200 (Inr (JObj [(''access_token'', JStr ''token+'')])) \<and>
   get_token (sample_env second_answers) \<lparr> token_cache = JStr ''token'', token_posts = 1 \<rparr> =
     (Inr (JStr ''token''), \<lparr> token_cache = JStr ''token'', token_posts = 1 \<rparr>) \<and>
   get_token_times (sample_env second_answers) 2
       \<lparr> token_cache = JStr ''token'', token_posts = 1 \<rparr> =
     ([Inr (JStr ''token''), Inr (JStr ''token'')],
      \<lparr> token_cache = JStr ''token'', token_posts = 1 \<rparr>)"
proof -
  have g: "get_token (sample_env second_answers) initial_state =
     (Inr (JStr ''token''), \<lparr> token_cache = JStr ''token'', token_posts = 1 \<rparr>)"
    by (simp add: get_token_def sample_env_def initial_state_def missing_def
          token_exchange_def dict_get_def)
  have p: "token_post (sample_env second_answers) 1 =
     Response 200 (Inr (JObj [(''access_token'', JStr ''token+'')]))"
    by (simp add: sample_env_def)
  have r: "replicate 2 x = [x, x]" for x :: "exn + json"
    by (simp add: numeral_2_eq_2)
  show ?thesis
    using g p token_memoized [OF g, of "sample_env second_answers" 2]
    by (simp add: r)
qed

subsection \<open>The loop over the records\<close>

lemma resolve_title_object:
  "dict_get item ''title'' JNull = JObj t \<Longrightarrow> resolve_title item = dict_get t ''@value'' (JStr '''')"
  by (simp add: resolve_title_def)

lemma resolve_title_raw:
  "\<not> is_obj (dict_get item ''title'' JNull) \<Longrightarrow> truthy (dict_get item ''title'' (JStr '''')) \<Longrightarrow>
   resolve_title item = dict_get item ''title'' (JStr '''')"
  by (cases "dict_get item ''title'' JNull") (simp_all add: resolve_title_def py_or_def)

lemma resolve_title_name:
  "\<not> is_obj (dict_get item ''title'' JNull) \<Longrightarrow> \<not> truthy (dict_get item ''title'' (JStr '''')) \<Longrightarrow>
   resolve_title item = dict_get item ''name'' (JStr '''')"
  by (cases "dict_get item ''title'' JNull") (simp_all add: resolve_title_def py_or_def)

lemma icd_title_entity_record: "icd_title (entity_record env item) = resolve_title item"
  by (simp add: entity_record_def entity_term_def)

lemma normalize_item_parses:
  assumes "parses env item"
  shows "normalize_item env (JObj item) =
           Inr (if titled item then Some (entity_record env item) else None)"
  using assms
  by (auto simp: parses_def titled_def entity_record_def synonyms_of_def ICD11Term_def
        split: sum.splits if_splits)

lemma normalize_entities_parses:
  assumes "list_all (parses env) items"
  shows "normalize_entities env (map JObj items) results =
           (None, results @ map (entity_record env) (filter titled items))"
  using assms
proof (induction items arbitrary: results)
  case Nil
  show ?case by simp
next
  case (Cons item items)
  from Cons.prems have p: "parses env item" and ps: "list_all (parses env) items"
    by simp_all
  show ?case
    using Cons.IH [OF ps]
    by (simp add: normalize_item_parses [OF p] del: normalize_item.simps)
qed

lemma normalize_item_has_title:
  assumes "normalize_item env item = Inr (Some t)"
  shows "has_title t"
proof (cases item)
  case (JObj d)
  with assms show ?thesis
    by (auto simp: has_title_def ICD11Term_def entity_term_def split: sum.splits if_splits)
qed (use assms in simp_all)

lemma normalize_entities_has_title:
  assumes "list_all has_title results"
  shows "list_all has_title (snd (normalize_entities env items results))"
  using assms
proof (induction items arbitrary: results)
  case Nil
  then show ?case by simp
next
  case (Cons item items)
  show ?case
  proof (cases "normalize_item env item")
    case (Inl e)
    with Cons.prems show ?thesis by simp
  next
    case (Inr r)
    show ?thesis
    proof (cases r)
      case None
      with Inr Cons show ?thesis by simp
    next
      case (Some t)
      with Inr have "has_title t" by (simp add: normalize_item_has_title)
      with Cons.prems have "list_all has_title (results @ [t])" by simp
      from Cons.IH [OF this] Inr Some show ?thesis by simp
    qed
  qed
qed

lemma process_response_has_title:
  assumes "list_all has_title results"
  shows "list_all has_title (snd (process_response env body results))"
  using assms normalize_entities_has_title [OF assms]
  by (simp add: process_response_def split: sum.splits json.splits)

lemma snd_tried: "snd (tried url r) = snd r"
  by (simp add: tried_def)

lemma probe_has_title:
  assumes "list_all has_title results"
  shows "list_all has_title (snd (probe env query use_flexisearch token urls results))"
  using assms
proof (induction urls arbitrary: results)
  case Nil
  then show ?case by simp
next
  case (Cons url urls)
  show ?case
  proof (cases "search_get env (request_for (py_strip env query) use_flexisearch token url)")
    case (Raises e)
    with Cons show ?thesis by (simp add: snd_tried)
  next
    case (Response status_code body)
    show ?thesis
    proof (cases "status_code = 200")
      case False
      with Response Cons show ?thesis by (simp add: snd_tried)
    next
      case True
      obtain e rs where pr: "process_response env body results = (e, rs)"
        by (cases "process_response env body results")
      with process_response_has_title [OF Cons.prems, of env body]
      have rs: "list_all has_title rs" by simp
      show ?thesis
        using Response True pr rs Cons.IH [OF rs]
        by (cases e) (simp_all add: snd_tried)
    qed
  qed
qed

lemma search_icd11_has_title:
  "list_all has_title (fst (search_icd11 env query use_flexisearch st))"
  using probe_has_title [of "[]" env query use_flexisearch _ "endpoints_to_try (base_url env)"]
  by (simp add: search_icd11_def split: prod.splits sum.splits)

lemmas eval_remote = dict_get_def py_or_def resolve_title_def resolve_definition_def
  extract_synonyms_def titled_def parses_def synonyms_of_def entity_record_def
  cholera_item_def typhoid_item_def untitled_item_def plague_item_def flat_label_item_def
  sample_env_def

lemma sample_parses:
  "parses (sample_env respond) cholera_item"
  "parses (sample_env respond) typhoid_item"
  "parses (sample_env respond) untitled_item"
  "parses (sample_env respond) plague_item"
  by (simp_all add: eval_remote)

lemma sample_titled:
  "titled cholera_item" "titled typhoid_item" "\<not> titled untitled_item" "titled plague_item"
  "titled flat_label_item"
  by (simp_all add: eval_remote)

subsection \<open>The entity list\<close>

lemma select_entities_first_truthy:
  "select_entities data =
     (case find (\<lambda>k. truthy (dict_get data k (JArr [])))
             [''destinationEntities'', ''entities'', ''searchResults''] of
        None \<Rightarrow> dict_get data ''results'' (JArr [])
      | Some k \<Rightarrow> dict_get data k (JArr []))"
  by (simp add: select_entities_def py_or_def)

lemma dict_get_absent: "map_of data k = None \<Longrightarrow> dict_get data k dflt = dflt"
  by (simp add: dict_get_def)

lemma select_entities_first_present:
  assumes "list_all (\<lambda>k. map_of data k \<noteq> None \<longrightarrow> truthy (dict_get data k (JArr [])))
             [''destinationEntities'', ''entities'', ''searchResults'']"
  shows "select_entities data = first_present_entities data"
proof -
  have absent: "\<not> truthy (dict_get data k (JArr []))" if "map_of data k = None" for k
    using that by (simp add: dict_get_absent)
  show ?thesis
    using assms absent [of "''destinationEntities''"] absent [of "''entities''"]
      absent [of "''searchResults''"]
    by (cases "map_of data ''destinationEntities''"; cases "map_of data ''entities''";
        cases "map_of data ''searchResults''"; cases "map_of data ''results''")
       (simp_all add: select_entities_def first_present_entities_def py_or_def dict_get_def)
qed

text \<open>
  C1, as amended. The entity list of a response document is the value under the first
  of the keys destinationEntities, entities, searchResults, in that order, whose value
  is truthy (a non-empty list), and the value under results, or the empty list, when
  there is none. It is the value under the first present key whenever no present key
  among the first three holds a falsy value.
\<close>

theorem entity_list_selection:
  "select_entities data =
     (case find (\<lambda>k. truthy (dict_get data k (JArr [])))
             [''destinationEntities'', ''entities'', ''searchResults''] of
        None \<Rightarrow> dict_get data ''results'' (JArr [])
      | Some k \<Rightarrow> dict_get data k (JArr [])) \<and>
   (list_all (\<lambda>k. map_of data k \<noteq> None \<longrightarrow> truthy (dict_get data k (JArr [])))
      [''destinationEntities'', ''entities'', ''searchResults''] \<longrightarrow>
    select_entities data = first_present_entities data)"
  using select_entities_first_truthy select_entities_first_present by blast

theorem entity_list_selection_witness:
  "select_entities [(''entities'', JArr [JObj cholera_item]), (''results'', JArr [])] =
     JArr [JObj cholera_item] \<and>
   first_present_entities [(''entities'', JArr [JObj cholera_item]), (''results'', JArr [])] =
     JArr [JObj cholera_item] \<and>
   select_entities empty_first_key = JArr [JObj cholera_item]"
  using entity_list_selection [of "[(''entities'', JArr [JObj cholera_item]), (''results'', JArr [])]"]
    entity_list_selection [of empty_first_key]
  by (simp add: dict_get_def empty_first_key_def first_present_entities_def)

text \<open>
  C1 as stated fails on a document with an empty list under destinationEntities and an
  entity under entities: the first present key does not win, and the response yields the
  record of that entity.
\<close>

theorem entity_list_selection_counterexample:
  "first_present_entities empty_first_key = JArr [] \<and>
   select_entities empty_first_key = JArr [JObj cholera_item] \<and>
   process_response (sample_env second_answers) (Inr (JObj empty_first_key)) [] =
     (None, [entity_record (sample_env second_answers) cholera_item])"
proof -
  have n: "normalize_item (sample_env second_answers) (JObj cholera_item) =
             Inr (Some (entity_record (sample_env second_answers) cholera_item))"
    by (simp add: normalize_item_parses sample_parses sample_titled del: normalize_item.simps)
  have s: "select_entities empty_first_key = JArr [JObj cholera_item]"
    by (simp add: select_entities_def py_or_def dict_get_def empty_first_key_def)
  have f: "first_present_entities empty_first_key = JArr []"
    by (simp add: first_present_entities_def dict_get_def empty_first_key_def)
  show ?thesis
    by (simp add: f s n process_response_def del: normalize_item.simps)
qed

subsection \<open>The loop over the endpoints\<close>

lemma probe_skips:
  assumes "skips env results (request_for (py_strip env query) use_flexisearch token url)"
  shows "probe env query use_flexisearch token (url # urls) results =
           tried url (probe env query use_flexisearch token urls
             (left_by env results (request_for (py_strip env query) use_flexisearch token url)))"
  using assms
  by (auto simp: skips_def left_by_def split: http_outcome.splits if_splits prod.splits option.splits)

lemma probe_answers:
  assumes "answers env results (request_for (py_strip env query) use_flexisearch token url) results'"
  shows "probe env query use_flexisearch token (url # urls) results = ([url], results')"
  using assms
  by (auto simp: answers_def split: http_outcome.splits)

lemma skips_or_answers:
  "answers env results req results' = (\<not> skips env results req \<and> results' = left_by env results req)"
  by (auto simp: answers_def skips_def left_by_def split: http_outcome.splits prod.splits option.splits)

lemma probe_skip_prefix:
  assumes "skips_all env (request_for (py_strip env query) use_flexisearch token) pre results"
  shows "probe env query use_flexisearch token (pre @ urls) results =
           (pre @ fst (probe env query use_flexisearch token urls
                         (left_after env (request_for (py_strip env query) use_flexisearch token)
                            pre results)),
            snd (probe env query use_flexisearch token urls
                   (left_after env (request_for (py_strip env query) use_flexisearch token)
                      pre results)))"
  using assms
proof (induction pre arbitrary: results)
  case Nil
  show ?case by simp
next
  case (Cons u pre)
  let ?req = "request_for (py_strip env query) use_flexisearch token"
  from Cons.prems have s: "skips env results (?req u)"
    and ss: "skips_all env ?req pre (left_by env results (?req u))"
    by simp_all
  have "probe env query use_flexisearch token (u # (pre @ urls)) results =
          tried u (probe env query use_flexisearch token (pre @ urls) (left_by env results (?req u)))"
    by (rule probe_skips [OF s])
  then show ?case
    by (simp add: Cons.IH [OF ss] tried_def)
qed

lemma probe_stops_at_first_answer:
  assumes "skips_all env (request_for (py_strip env query) use_flexisearch token) pre results"
    and "answers env
           (left_after env (request_for (py_strip env query) use_flexisearch token) pre results)
           (request_for (py_strip env query) use_flexisearch token url) results'"
  shows "probe env query use_flexisearch token (pre @ url # post) results = (pre @ [url], results')"
  using probe_skip_prefix [OF assms(1), of "url # post"] probe_answers [OF assms(2), of post]
  by simp

lemma probe_all_skipped:
  assumes "skips_all env (request_for (py_strip env query) use_flexisearch token) urls results"
  shows "probe env query use_flexisearch token urls results =
           (urls, left_after env (request_for (py_strip env query) use_flexisearch token) urls results)"
  using probe_skip_prefix [OF assms, of "[]"] by simp

lemma raises_skips:
  assumes "search_get env req = Raises e"
  shows "skips env results req \<and> left_by env results req = results"
  using assms by (simp add: skips_def left_by_def)

lemma not_200_skips:
  assumes "search_get env req = Response status_code body" and "status_code \<noteq> 200"
  shows "skips env results req \<and> left_by env results req = results"
  using assms by (simp add: skips_def left_by_def)

lemma broken_200_skips:
  assumes "search_get env req = Response 200 body"
    and "process_response env body results = (Some e, results')"
  shows "skips env results req \<and> left_by env results req = results'"
  using assms by (simp add: skips_def left_by_def)

lemma clean_200_answers:
  assumes "search_get env req = Response 200 body"
    and "process_response env body results = (None, results')"
  shows "answers env results req results'"
  using assms by (simp add: answers_def)

lemma entities_answer:
  assumes "search_get env req = Response 200 (Inr (JObj data))"
    and "select_entities data = JArr (map JObj items)"
    and "list_all (parses env) items"
  shows "answers env results req (results @ map (entity_record env) (filter titled items))"
  using assms normalize_entities_parses [of env items results]
  by (simp add: answers_def process_response_def)

lemma search_icd11_probe:
  assumes "query \<noteq> []" and "py_strip env query \<noteq> []"
    and "get_token env st = (Inr token, st')"
  shows "search_icd11 env query use_flexisearch st =
           (snd (probe env query use_flexisearch token (endpoints_to_try (base_url env)) []), st')"
  using assms by (simp add: search_icd11_def)

lemma search_icd11_stops:
  assumes "query \<noteq> []" and "py_strip env query \<noteq> []"
    and "get_token env st = (Inr token, st')"
    and "endpoints_to_try (base_url env) = pre @ url # post"
    and "skips_all env (request_for (py_strip env query) use_flexisearch token) pre []"
    and "answers env
           (left_after env (request_for (py_strip env query) use_flexisearch token) pre [])
           (request_for (py_strip env query) use_flexisearch token url) results'"
  shows "search_icd11 env query use_flexisearch st = (results', st')"
  using search_icd11_probe [OF assms(1-3), of use_flexisearch]
    probe_stops_at_first_answer [OF assms(5,6), of post] assms(4)
  by simp

lemma search_icd11_all_skipped:
  assumes "query \<noteq> []" and "py_strip env query \<noteq> []"
    and "get_token env st = (Inr token, st')"
    and "skips_all env (request_for (py_strip env query) use_flexisearch token)
           (endpoints_to_try (base_url env)) []"
  shows "search_icd11 env query use_flexisearch st =
           (left_after env (request_for (py_strip env query) use_flexisearch token)
              (endpoints_to_try (base_url env)) [], st')"
  using search_icd11_probe [OF assms(1-3), of use_flexisearch] probe_all_skipped [OF assms(4)]
  by simp

lemma second_endpoint_only:
  assumes "query \<noteq> []" and "py_strip env query \<noteq> []"
    and "get_token env st = (Inr token, st')"
    and "search_get env (request_for (py_strip env query) use_flexisearch token
            (base_url env @ ''/mms/search'')) = Response status_code body"
    and "status_code \<noteq> 200"
    and "search_get env (request_for (py_strip env query) use_flexisearch token
            (base_url env @ ''/search'')) = Response 200 (Inr (JObj data))"
    and "select_entities data = JArr [JObj item]"
    and "parses env item" and "titled item"
  shows "search_icd11 env query use_flexisearch st = ([entity_record env item], st')"
proof -
  let ?req = "request_for (py_strip env query) use_flexisearch token"
  have s: "skips_all env ?req [base_url env @ ''/mms/search''] []"
    and l: "left_after env ?req [base_url env @ ''/mms/search''] [] = []"
    using not_200_skips [OF assms(4,5), of "[]"] by simp_all
  have "answers env [] (?req (base_url env @ ''/search''))
          ([] @ map (entity_record env) (filter titled [item]))"
    by (rule entities_answer [OF assms(6)]) (simp_all add: assms(7,8))
  then have a: "answers env (left_after env ?req [base_url env @ ''/mms/search''] [])
                  (?req (base_url env @ ''/search'')) [entity_record env item]"
    using l assms(9) by simp
  show ?thesis
    by (rule search_icd11_stops [OF assms(1-3) _ s a]) (simp add: endpoints_to_try_def)
qed

text \<open>
  C3, as amended. The URLs are requested in the order of the list. An endpoint whose
  request raises, whose status is not 200, or whose 200 response raises while it is
  parsed and normalized, is skipped, the list of results going on to the next endpoint
  as that pass left it; the loop stops at the first endpoint that answers 200 with a
  body that is normalized without an exception, and requests none after it. Every
  endpoint is skipped or answers. When all are skipped, all are requested. The search
  returns the list the loop ends with. In particular, when the first endpoint answers a
  status other than 200 (500, say) and the second answers 200 with one valid entity, the
  search returns exactly that entity.
\<close>

theorem remote_probing:
  "(search_get env req = Raises e \<longrightarrow>
      skips env results req \<and> left_by env results req = results) \<and>
   (search_get env req = Response status_code body \<and> status_code \<noteq> 200 \<longrightarrow>
      skips env results req \<and> left_by env results req = results) \<and>
   (search_get env req = Response 200 body \<and>
    process_response env body results = (Some e, results') \<longrightarrow>
      skips env results req \<and> left_by env results req = results') \<and>
   (search_get env req = Response 200 body \<and>
    process_response env body results = (None, results') \<longrightarrow>
      answers env results req results') \<and>
   answers env results req results' =
     (\<not> skips env results req \<and> results' = left_by env results req) \<and>
   (skips_all env (request_for (py_strip env query) use_flexisearch token) pre results \<and>
    answers env
      (left_after env (request_for (py_strip env query) use_flexisearch token) pre results)
      (request_for (py_strip env query) use_flexisearch token url) results' \<longrightarrow>
      probe env query use_flexisearch token (pre @ url # post) results = (pre @ [url], results')) \<and>
   (skips_all env (request_for (py_strip env query) use_flexisearch token) urls results \<longrightarrow>
      probe env query use_flexisearch token urls results =
        (urls, left_after env (request_for (py_strip env query) use_flexisearch token) urls results)) \<and>
   (query \<noteq> [] \<and> py_strip env query \<noteq> [] \<and> get_token env st = (Inr token, st') \<and>
    endpoints_to_try (base_url env) = pre @ url # post \<and>
    skips_all env (request_for (py_strip env query) use_flexisearch token) pre [] \<and>
    answers env
      (left_after env (request_for (py_strip env query) use_flexisearch token) pre [])
      (request_for (py_strip env query) use_flexisearch token url) results' \<longrightarrow>
      search_icd11 env query use_flexisearch st = (results', st')) \<and>
   (query \<noteq> [] \<and> py_strip env query \<noteq> [] \<and> get_token env st = (Inr token, st') \<and>
    skips_all env (request_for (py_strip env query) use_flexisearch token)
      (endpoints_to_try (base_url env)) [] \<longrightarrow>
      search_icd11 env query use_flexisearch st =
        (left_after env (request_for (py_strip env query) use_flexisearch token)
           (endpoints_to_try (base_url env)) [], st')) \<and>
   (query \<noteq> [] \<and> py_strip env query \<noteq> [] \<and> get_token env st = (Inr token, st') \<and>
    search_get env (request_for (py_strip env query) use_flexisearch token
       (base_url env @ ''/mms/search'')) = Response status_code body \<and>
    status_code \<noteq> 200 \<and>
    search_get env (request_for (py_strip env query) use_flexisearch token
       (base_url env @ ''/search'')) = Response 200 (Inr (JObj data)) \<and>
    select_entities data = JArr [JObj item] \<and> parses env item \<and> titled item \<longrightarrow>
      search_icd11 env query use_flexisearch st = ([entity_record env item], st'))"
proof (intro conjI impI, goal_cases)
  case 1
  then show ?case using raises_skips by simp
next
  case 2
  then show ?case using raises_skips by simp
next
  case 3
  then show ?case by (elim conjE) (simp add: not_200_skips)
next
  case 4
  then show ?case by (elim conjE) (simp add: not_200_skips)
next
  case 5
  then show ?case by (elim conjE) (simp add: broken_200_skips)
next
  case 6
  then show ?case by (elim conjE) (simp add: broken_200_skips)
next
  case 7
  then show ?case by (elim conjE) (rule clean_200_answers)
next
  case 8
  show ?case by (rule skips_or_answers)
next
  case 9
  then show ?case by (elim conjE) (rule probe_stops_at_first_answer)
next
  case 10
  then show ?case by (rule probe_all_skipped)
next
  case 11
  then show ?case by (elim conjE) (rule search_icd11_stops)
next
  case 12
  then show ?case by (elim conjE) (rule search_icd11_all_skipped)
next
  case 13
  then show ?case by (elim conjE) (rule second_endpoint_only)
qed

lemma sample_token:
  "get_token (sample_env respond) initial_state =
     (Inr (JStr ''token''), \<lparr> token_cache = JStr ''token'', token_posts = 1 \<rparr>)"
  by (simp add: get_token_def sample_env_def initial_state_def missing_def
        token_exchange_def dict_get_def)

lemma strip_samples: "ascii_strip ''cholera'' = ''cholera''" "ascii_strip ''fever'' = ''fever''"
  by (simp_all add: ascii_strip_def ascii_space_def)

lemma sample_env_simps:
  "search_get (sample_env respond) (request_for q use_flexisearch token url) = respond url"
  "py_strip (sample_env respond) = ascii_strip"
  "base_url (sample_env respond) = ''https://id.who.int/icd''"
  by (simp_all add: sample_env_def request_for_def)

lemma second_answers_simps:
  "second_answers ''https://id.who.int/icd/mms/search'' = Response 500 (Inl JSONDecodeError)"
  "second_answers ''https://id.who.int/icd/search'' =
     Response 200 (Inr (JObj [(''destinationEntities'', JArr [JObj cholera_item])]))"
  by (simp_all add: second_answers_def)

lemma select_one:
  "select_entities [(''destinationEntities'', JArr [JObj item])] = JArr [JObj item]"
  by (simp add: select_entities_def py_or_def dict_get_def)

lemma sample_second_search:
  "search_icd11 (sample_env second_answers) ''cholera'' True initial_state =
     ([entity_record (sample_env second_answers) cholera_item],
      \<lparr> token_cache = JStr ''token'', token_posts = 1 \<rparr>)"
proof -
  let ?env = "sample_env second_answers"
  let ?req = "request_for (py_strip ?env ''cholera'') True (JStr ''token'')"
  have g1: "search_get ?env (?req (base_url ?env @ ''/mms/search'')) =
              Response 500 (Inl JSONDecodeError)"
    by (simp add: sample_env_simps second_answers_simps)
  have g2: "search_get ?env (?req (base_url ?env @ ''/search'')) =
              Response 200 (Inr (JObj [(''destinationEntities'', JArr [JObj cholera_item])]))"
    by (simp add: sample_env_simps second_answers_simps)
  show ?thesis
    by (rule second_endpoint_only
          [OF _ _ sample_token g1 _ g2 select_one sample_parses(1) sample_titled(1)])
       (simp_all add: sample_env_simps strip_samples)
qed

theorem remote_probing_witness:
  "search_get (sample_env second_answers)
       (request_for ''cholera'' True (JStr ''token'') ''https://id.who.int/icd/mms/search'') =
     Response 500 (Inl JSONDecodeError) \<and>
   search_icd11 (sample_env second_answers) ''cholera'' True initial_state =
     ([entity_record (sample_env second_answers) cholera_item],
      \<lparr> token_cache = JStr ''token'', token_posts = 1 \<rparr>) \<and>
   probe (sample_env second_answers) ''cholera'' True (JStr ''token'')
       (endpoints_to_try ''https://id.who.int/icd'') [] =
     ([''https://id.who.int/icd/mms/search'', ''https://id.who.int/icd/search''],
      [entity_record (sample_env second_answers) cholera_item])"
proof -
  let ?env = "sample_env second_answers"
  let ?req = "request_for ''cholera'' True (JStr ''token'')"
  have g1: "search_get ?env (?req ''https://id.who.int/icd/mms/search'') =
              Response 500 (Inl JSONDecodeError)"
    by (simp add: sample_env_simps second_answers_simps)
  have g2: "search_get ?env (?req ''https://id.who.int/icd/search'') =
              Response 200 (Inr (JObj [(''destinationEntities'', JArr [JObj cholera_item])]))"
    by (simp add: sample_env_simps second_answers_simps)
  have sk: "skips ?env [] (?req ''https://id.who.int/icd/mms/search'')"
    and lb: "left_by ?env [] (?req ''https://id.who.int/icd/mms/search'') = []"
    using not_200_skips [OF g1, of "[]"] by simp_all
  have an: "answers ?env [] (?req ''https://id.who.int/icd/search'')
              [entity_record ?env cholera_item]"
    using entities_answer [OF g2, of "[cholera_item]" "[]"]
    by (simp add: select_one sample_parses sample_titled)
  note T = remote_probing [where env = ?env and query = "''cholera''" and use_flexisearch = True
      and token = "JStr ''token''" and results = "[]"
      and pre = "[''https://id.who.int/icd/mms/search'']"
      and url = "''https://id.who.int/icd/search''"
      and results' = "[entity_record ?env cholera_item]"
      and post = "[''https://id.who.int/icd/mms/flexisearch'',
                   ''https://id.who.int/icd/release/11/2024-01/mms/search'']"
      and st = initial_state and st' = "\<lparr> token_cache = JStr ''token'', token_posts = 1 \<rparr>"
      and status_code = 500 and body = "Inl JSONDecodeError"
      and data = "[(''destinationEntities'', JArr [JObj cholera_item])]" and item = cholera_item]
  from T have "probe ?env ''cholera'' True (JStr ''token'')
          ([''https://id.who.int/icd/mms/search''] @ ''https://id.who.int/icd/search'' #
           [''https://id.who.int/icd/mms/flexisearch'',
            ''https://id.who.int/icd/release/11/2024-01/mms/search'']) [] =
          ([''https://id.who.int/icd/mms/search''] @ [''https://id.who.int/icd/search''],
           [entity_record ?env cholera_item])"
    and "search_icd11 ?env ''cholera'' True initial_state =
          ([entity_record ?env cholera_item], \<lparr> token_cache = JStr ''token'', token_posts = 1 \<rparr>)"
    using sk lb an sample_token [of second_answers] g1 g2 sample_parses(1) sample_titled(1)
    by (simp_all add: sample_env_simps strip_samples select_one)
  then show ?thesis
    using g1 by (simp add: endpoints_to_try_def)
qed

text \<open>
  C3 as stated fails when the first endpoint answers 200 with two records of which the
  second has a synonym label that is a string: the first record is appended, the second
  raises AttributeError, the loop goes on to the second endpoint, and the result holds
  an entity of each endpoint.
\<close>

theorem remote_probing_counterexample:
  "search_get (sample_env first_breaks)
       (request_for ''fever'' True (JStr ''token'') ''https://id.who.int/icd/mms/search'') =
     Response 200
       (Inr (JObj [(''destinationEntities'', JArr [JObj cholera_item, JObj flat_label_item])])) \<and>
   probe (sample_env first_breaks) ''fever'' True (JStr ''token'')
       (endpoints_to_try ''https://id.who.int/icd'') [] =
     ([''https://id.who.int/icd/mms/search'', ''https://id.who.int/icd/search''],
      [entity_record (sample_env first_breaks) cholera_item,
       entity_record (sample_env first_breaks) typhoid_item]) \<and>
   fst (search_icd11 (sample_env first_breaks) ''fever'' True initial_state) =
     [entity_record (sample_env first_breaks) cholera_item,
      entity_record (sample_env first_breaks) typhoid_item]"
proof -
  let ?env = "sample_env first_breaks"
  let ?req = "request_for ''fever'' True (JStr ''token'')"
  have g1: "search_get ?env (?req ''https://id.who.int/icd/mms/search'') =
     Response 200
       (Inr (JObj [(''destinationEntities'', JArr [JObj cholera_item, JObj flat_label_item])]))"
    by (simp add: sample_env_simps first_breaks_def)
  have g2: "search_get ?env (?req ''https://id.who.int/icd/search'') =
     Response 200 (Inr (JObj [(''destinationEntities'', JArr [JObj typhoid_item])]))"
    by (simp add: sample_env_simps first_breaks_def)
  have n1: "normalize_item ?env (JObj cholera_item) = Inr (Some (entity_record ?env cholera_item))"
    by (simp add: normalize_item_parses sample_parses sample_titled del: normalize_item.simps)
  have n2: "normalize_item ?env (JObj typhoid_item) = Inr (Some (entity_record ?env typhoid_item))"
    by (simp add: normalize_item_parses sample_parses sample_titled del: normalize_item.simps)
  have n3: "normalize_item ?env (JObj flat_label_item) = Inl AttributeError"
    by (simp add: flat_label_item_def extract_synonyms_def py_or_def dict_get_def)
  have p1: "process_response ?env
              (Inr (JObj [(''destinationEntities'', JArr [JObj cholera_item, JObj flat_label_item])]))
              [] =
            (Some AttributeError, [entity_record ?env cholera_item])"
    by (simp add: process_response_def select_entities_def py_or_def dict_get_def n1 n3
          del: normalize_item.simps)
  have p2: "process_response ?env
              (Inr (JObj [(''destinationEntities'', JArr [JObj typhoid_item])]))
              [entity_record ?env cholera_item] =
            (None, [entity_record ?env cholera_item, entity_record ?env typhoid_item])"
    by (simp add: process_response_def select_entities_def py_or_def dict_get_def n2
          del: normalize_item.simps)
  have pr: "probe ?env ''fever'' True (JStr ''token'') (endpoints_to_try ''https://id.who.int/icd'') [] =
     ([''https://id.who.int/icd/mms/search'', ''https://id.who.int/icd/search''],
      [entity_record ?env cholera_item, entity_record ?env typhoid_item])"
    using g1 g2
    by (simp add: endpoints_to_try_def p1 p2 tried_def sample_env_simps(2) strip_samples)
  show ?thesis
    using g1 pr
    by (simp add: search_icd11_def strip_samples sample_token sample_env_simps(2,3))
qed

subsection \<open>Titles\<close>

lemma parses_iff:
  "parses env item = (\<exists>r. normalize_item env (JObj item) = Inr r)"
  by (auto simp: parses_def titled_def ICD11Term_def split: sum.splits if_splits)

lemma normalize_entities_raises:
  assumes "list_all (parses env) items" and "normalize_item env bad = Inl e"
  shows "normalize_entities env (map JObj items @ bad # rest) results =
           (Some e, results @ map (entity_record env) (filter titled items))"
  using assms(1)
proof (induction items arbitrary: results)
  case Nil
  show ?case using assms(2) by simp
next
  case (Cons item items)
  from Cons.prems have p: "parses env item" and ps: "list_all (parses env) items"
    by simp_all
  show ?case
    using Cons.IH [OF ps]
    by (simp add: normalize_item_parses [OF p] del: normalize_item.simps)
qed

lemma search_icd11_entities:
  assumes "query \<noteq> []" and "py_strip env query \<noteq> []"
    and "get_token env st = (Inr token, st')"
    and "endpoints_to_try (base_url env) = pre @ url # post"
    and "skips_all env (request_for (py_strip env query) use_flexisearch token) pre []"
    and "search_get env (request_for (py_strip env query) use_flexisearch token url) =
           Response 200 (Inr (JObj data))"
    and "select_entities data = JArr (map JObj items)"
    and "list_all (parses env) items"
  shows "search_icd11 env query use_flexisearch st =
           (left_after env (request_for (py_strip env query) use_flexisearch token) pre [] @
            map (entity_record env) (filter titled items), st')"
  by (rule search_icd11_stops [OF assms(1-5) entities_answer [OF assms(6-8)]])

text \<open>
  C8, as amended. The title of a record is the @value of its title when the title is an
  object, else the title itself when it is truthy, else the name (the empty string by
  default), and it is the title of the record built. When the loop body raises on no
  record of a response, the loop appends the records of exactly those with a truthy
  title, in their order, and drops the others; when it raises on a record, the records
  kept are those with a truthy title before that one, and the exception ends the pass.
  The search returns what the skipped endpoints left followed by the titled records of
  the first endpoint that answers, when the loop body raises on none of them. Whatever
  the endpoints answer, the search returns a list, and every record in it has a truthy
  title.
\<close>

theorem title_resolution:
  "(dict_get item ''title'' JNull = JObj t \<longrightarrow>
      resolve_title item = dict_get t ''@value'' (JStr '''')) \<and>
   (\<not> is_obj (dict_get item ''title'' JNull) \<and> truthy (dict_get item ''title'' (JStr '''')) \<longrightarrow>
      resolve_title item = dict_get item ''title'' (JStr '''')) \<and>
   (\<not> is_obj (dict_get item ''title'' JNull) \<and> \<not> truthy (dict_get item ''title'' (JStr '''')) \<longrightarrow>
      resolve_title item = dict_get item ''name'' (JStr '''')) \<and>
   icd_title (entity_record env item) = resolve_title item \<and>
   parses env item = (\<exists>r. normalize_item env (JObj item) = Inr r) \<and>
   (list_all (parses env) items \<longrightarrow>
      normalize_entities env (map JObj items) results =
        (None, results @ map (entity_record env) (filter titled items))) \<and>
   (list_all (parses env) items \<and> normalize_item env bad = Inl e \<longrightarrow>
      normalize_entities env (map JObj items @ bad # rest) results =
        (Some e, results @ map (entity_record env) (filter titled items))) \<and>
   (query \<noteq> [] \<and> py_strip env query \<noteq> [] \<and> get_token env st = (Inr token, st') \<and>
    endpoints_to_try (base_url env) = pre @ url # post \<and>
    skips_all env (request_for (py_strip env query) use_flexisearch token) pre [] \<and>
    search_get env (request_for (py_strip env query) use_flexisearch token url) =
      Response 200 (Inr (JObj data)) \<and>
    select_entities data = JArr (map JObj items) \<and> list_all (parses env) items \<longrightarrow>
      search_icd11 env query use_flexisearch st =
        (left_after env (request_for (py_strip env query) use_flexisearch token) pre [] @
         map (entity_record env) (filter titled items), st')) \<and>
   list_all has_title (fst (search_icd11 env query use_flexisearch st))"
proof (intro conjI impI, goal_cases)
  case 1
  then show ?case by (rule resolve_title_object)
next
  case 2
  then show ?case by (elim conjE) (rule resolve_title_raw)
next
  case 3
  then show ?case by (elim conjE) (rule resolve_title_name)
next
  case 4
  show ?case by (rule icd_title_entity_record)
next
  case 5
  show ?case by (rule parses_iff)
next
  case 6
  then show ?case by (rule normalize_entities_parses)
next
  case 7
  then show ?case by (elim conjE) (rule normalize_entities_raises)
next
  case 8
  then show ?case by (elim conjE) (rule search_icd11_entities)
next
  case 9
  show ?case by (rule search_icd11_has_title)
qed

theorem title_resolution_witness:
  "resolve_title cholera_item = JStr ''Cholera'' \<and>
   resolve_title plague_item = JStr ''Plague'' \<and>
   resolve_title typhoid_item = JStr ''Typhoid fever'' \<and>
   resolve_title untitled_item = JStr '''' \<and>
   normalize_entities (sample_env second_answers)
       (map JObj [cholera_item, untitled_item, plague_item, typhoid_item]) [] =
     (None, [entity_record (sample_env second_answers) cholera_item,
             entity_record (sample_env second_answers) plague_item,
             entity_record (sample_env second_answers) typhoid_item]) \<and>
   normalize_entities (sample_env second_answers)
       (map JObj [cholera_item, untitled_item] @ JObj flat_label_item # [JObj typhoid_item]) [] =
     (Some AttributeError, [entity_record (sample_env second_answers) cholera_item]) \<and>
   icd_synonyms (entity_record (sample_env second_answers) plague_item) =
     [JStr ''Black death'', JStr ''Pestis''] \<and>
   search_icd11 (sample_env second_answers) ''cholera'' True initial_state =
     ([entity_record (sample_env second_answers) cholera_item],
      \<lparr> token_cache = JStr ''token'', token_posts = 1 \<rparr>)"
proof -
  let ?env = "sample_env second_answers"
  let ?req = "request_for ''cholera'' True (JStr ''token'')"
  have p: "list_all (parses ?env) [cholera_item, untitled_item, plague_item, typhoid_item]"
    and p2: "list_all (parses ?env) [cholera_item, untitled_item]"
    and p1: "list_all (parses ?env) [cholera_item]"
    by (simp_all add: sample_parses)
  have o: "dict_get cholera_item ''title'' JNull = JObj [(''@value'', JStr ''Cholera'')]"
    by (simp add: eval_remote)
  have s: "icd_synonyms (entity_record ?env plague_item) = [JStr ''Black death'', JStr ''Pestis'']"
    by (simp add: eval_remote entity_term_def)
  have bad: "normalize_item ?env (JObj flat_label_item) = Inl AttributeError"
    by (simp add: flat_label_item_def extract_synonyms_def py_or_def dict_get_def)
  have g1: "search_get ?env (?req ''https://id.who.int/icd/mms/search'') =
              Response 500 (Inl JSONDecodeError)"
    by (simp add: sample_env_simps second_answers_simps)
  have g2: "search_get ?env (?req ''https://id.who.int/icd/search'') =
              Response 200 (Inr (JObj [(''destinationEntities'', JArr [JObj cholera_item])]))"
    by (simp add: sample_env_simps second_answers_simps)
  have sk: "skips ?env [] (?req ''https://id.who.int/icd/mms/search'')"
    and lb: "left_by ?env [] (?req ''https://id.who.int/icd/mms/search'') = []"
    using not_200_skips [OF g1, of "[]"] by simp_all
  have e: "endpoints_to_try ''https://id.who.int/icd'' =
             [''https://id.who.int/icd/mms/search''] @ ''https://id.who.int/icd/search'' #
             [''https://id.who.int/icd/mms/flexisearch'',
              ''https://id.who.int/icd/release/11/2024-01/mms/search'']"
    by (simp add: endpoints_to_try_def)
  note T1 = title_resolution [where item = cholera_item and t = "[(''@value'', JStr ''Cholera'')]"
      and env = ?env and items = "[cholera_item, untitled_item, plague_item, typhoid_item]"
      and results = "[]"]
  note T2 = title_resolution [where env = ?env and items = "[cholera_item, untitled_item]"
      and bad = "JObj flat_label_item" and e = AttributeError and rest = "[JObj typhoid_item]"
      and results = "[]" and item = plague_item]
  note T3 = title_resolution [where env = ?env and items = "[cholera_item]" and item = typhoid_item
      and query = "''cholera''" and use_flexisearch = True and token = "JStr ''token''"
      and st = initial_state and st' = "\<lparr> token_cache = JStr ''token'', token_posts = 1 \<rparr>"
      and pre = "[''https://id.who.int/icd/mms/search'']"
      and url = "''https://id.who.int/icd/search''"
      and post = "[''https://id.who.int/icd/mms/flexisearch'',
                   ''https://id.who.int/icd/release/11/2024-01/mms/search'']"
      and data = "[(''destinationEntities'', JArr [JObj cholera_item])]"]
  note T4 = title_resolution [where item = untitled_item]
  from T1 o p have a: "resolve_title cholera_item = JStr ''Cholera''"
    and b: "normalize_entities ?env
       (map JObj [cholera_item, untitled_item, plague_item, typhoid_item]) [] =
     (None, [] @ map (entity_record ?env)
        (filter titled [cholera_item, untitled_item, plague_item, typhoid_item]))"
    by (simp_all add: eval_remote(1))
  from T2 p2 bad have c: "normalize_entities ?env
       (map JObj [cholera_item, untitled_item] @ JObj flat_label_item # [JObj typhoid_item]) [] =
     (Some AttributeError, [] @ map (entity_record ?env) (filter titled [cholera_item, untitled_item]))"
    by blast
  from T3 p1 sk lb g2 e sample_token [of second_answers]
  have d: "search_icd11 ?env ''cholera'' True initial_state =
     ([] @ map (entity_record ?env) (filter titled [cholera_item]),
      \<lparr> token_cache = JStr ''token'', token_posts = 1 \<rparr>)"
    by (simp add: sample_env_simps strip_samples select_one)
  have r: "resolve_title plague_item = JStr ''Plague''"
    "resolve_title typhoid_item = JStr ''Typhoid fever''"
    "resolve_title untitled_item = JStr ''''"
    using T2 T3 T4 by (simp_all add: eval_remote)
  show ?thesis
    using a b c d r s by (simp add: sample_titled)
qed

text \<open>
  C8 as stated fails when a record with a title has a synonym whose label is a string:
  line 130 raises before the title is tested at line 134, so neither this record nor the
  titled record after it is kept, and with the other endpoints out of reach the search
  returns the empty list.
\<close>

theorem title_resolution_counterexample:
  "titled flat_label_item \<and> titled cholera_item \<and>
   search_get (sample_env label_first)
       (request_for ''fever'' True (JStr ''token'') ''https://id.who.int/icd/mms/search'') =
     Response 200
       (Inr (JObj [(''destinationEntities'', JArr [JObj flat_label_item, JObj cholera_item])])) \<and>
   normalize_entities (sample_env label_first) [JObj flat_label_item, JObj cholera_item] [] =
     (Some AttributeError, []) \<and>
   search_icd11 (sample_env label_first) ''fever'' True initial_state =
     ([], \<lparr> token_cache = JStr ''token'', token_posts = 1 \<rparr>)"
proof -
  let ?env = "sample_env label_first"
  let ?req = "request_for ''fever'' True (JStr ''token'')"
  have g1: "search_get ?env (?req ''https://id.who.int/icd/mms/search'') =
     Response 200
       (Inr (JObj [(''destinationEntities'', JArr [JObj flat_label_item, JObj cholera_item])]))"
    by (simp add: sample_env_simps label_first_def)
  have g: "search_get ?env (?req ''https://id.who.int/icd/search'') = Raises RequestError"
    "search_get ?env (?req ''https://id.who.int/icd/mms/flexisearch'') = Raises RequestError"
    "search_get ?env (?req ''https://id.who.int/icd/release/11/2024-01/mms/search'') =
       Raises RequestError"
    by (simp_all add: sample_env_simps label_first_def)
  have bad: "normalize_item ?env (JObj flat_label_item) = Inl AttributeError"
    by (simp add: flat_label_item_def extract_synonyms_def py_or_def dict_get_def)
  have n: "normalize_entities ?env [JObj flat_label_item, JObj cholera_item] [] =
             (Some AttributeError, [])"
    by (simp add: bad del: normalize_item.simps)
  have p1: "process_response ?env
              (Inr (JObj [(''destinationEntities'', JArr [JObj flat_label_item, JObj cholera_item])]))
              [] = (Some AttributeError, [])"
    by (simp add: process_response_def select_entities_def py_or_def dict_get_def n
          del: normalize_entities.simps)
  have pr: "probe ?env ''fever'' True (JStr ''token'') (endpoints_to_try ''https://id.who.int/icd'') [] =
     (endpoints_to_try ''https://id.who.int/icd'', [])"
    using g1 g
    by (simp add: endpoints_to_try_def p1 tried_def sample_env_simps(2) strip_samples)
  show ?thesis
    using g1 n pr
    by (simp add: search_icd11_def strip_samples sample_token sample_env_simps(2,3) sample_titled)
qed

section \<open>The claims on the orchestrator\<close>

lemma guard_namaste_Inl: "guard_namaste (Inl e) = []"
  by (cases e) (simp_all add: guard_namaste_def)

lemma guard_namaste_Inr: "guard_namaste (Inr rs) = rs"
  by (simp add: guard_namaste_def)

lemma guard_icd11_simps: "guard_icd11 (Inl e) = []" "guard_icd11 (Inr rs) = rs"
  by (simp_all add: guard_icd11_def)

lemma search_terms_lists:
  "namaste_results (fst (search_terms namaste_search icd11_search None elapsed q source ayush_system st)) =
     (if source \<in> set [NAMASTE, BOTH] then guard_namaste (namaste_search q ayush_system) else [])"
  "icd11_results (fst (search_terms namaste_search icd11_search None elapsed q source ayush_system st)) =
     (if source \<in> set [ICD11, BOTH] then guard_icd11 (fst (icd11_search q st)) else [])"
  by (simp_all add: search_terms_def Let_def)

text \<open>
  C4. Whatever the two searches return or raise, the envelope's total is the sum of the
  lengths of its two lists; its status is no_results exactly when the total is 0 and the
  merge step raised nothing, error exactly when the merge step raised, and success
  otherwise. A search that raises only empties its own list.
\<close>

theorem envelope_invariants:
  "total_results (fst (search_terms namaste_search icd11_search fault elapsed q source ayush_system st)) =
     length (namaste_results
               (fst (search_terms namaste_search icd11_search fault elapsed q source ayush_system st))) +
     length (icd11_results
               (fst (search_terms namaste_search icd11_search fault elapsed q source ayush_system st))) \<and>
   (status (fst (search_terms namaste_search icd11_search fault elapsed q source ayush_system st)) =
      ''no_results'') =
     (total_results
        (fst (search_terms namaste_search icd11_search fault elapsed q source ayush_system st)) = 0 \<and>
      fault = None) \<and>
   (status (fst (search_terms namaste_search icd11_search fault elapsed q source ayush_system st)) =
      ''error'') = (fault \<noteq> None) \<and>
   (status (fst (search_terms namaste_search icd11_search fault elapsed q source ayush_system st)) =
      ''success'') =
     (total_results
        (fst (search_terms namaste_search icd11_search fault elapsed q source ayush_system st)) \<noteq> 0 \<and>
      fault = None)"
  by (cases fault) (simp_all add: search_terms_def Let_def)

theorem envelope_invariants_witness:
  "status (fst (search_terms (\<lambda>query system. Inl (HTTPException 500 ''NAMASTE search failed''))
             (\<lambda>query s. (Inl RequestError, s)) None 12 ''fever'' BOTH None ())) = ''no_results'' \<and>
   total_results (fst (search_terms (\<lambda>query system. Inl (HTTPException 500 ''NAMASTE search failed''))
             (\<lambda>query s. (Inl RequestError, s)) None 12 ''fever'' BOTH None ())) = 0 \<and>
   status (fst (search_terms (\<lambda>query system. Inr [catalog_record fever_item])
             (\<lambda>query s. (Inr [], s)) None 12 ''fever'' BOTH None ())) = ''success'' \<and>
   total_results (fst (search_terms (\<lambda>query system. Inr [catalog_record fever_item])
             (\<lambda>query s. (Inr [], s)) None 12 ''fever'' BOTH None ())) = 1 \<and>
   status (fst (search_terms (\<lambda>query system. Inr [catalog_record fever_item])
             (\<lambda>query s. (Inr [], s)) (Some ''clock failed'') 12 ''fever'' BOTH None ())) = ''error''"
  using
    envelope_invariants [of "\<lambda>query system. Inl (HTTPException 500 ''NAMASTE search failed'')"
      "\<lambda>query s. (Inl RequestError, s)" None 12 "''fever''" BOTH None "()"]
    envelope_invariants [of "\<lambda>query system. Inr [catalog_record fever_item]"
      "\<lambda>query s. (Inr [], s)" None 12 "''fever''" BOTH None "()"]
    envelope_invariants [of "\<lambda>query system. Inr [catalog_record fever_item]"
      "\<lambda>query s. (Inr [], s)" "Some ''clock failed''" 12 "''fever''" BOTH None "()"]
  by (simp add: search_terms_lists guard_namaste_Inl guard_namaste_Inr guard_icd11_simps)

text \<open>
  C5. With both sources requested, a remote search that raises leaves the local results
  in the envelope and an empty remote list, and a local search that raises leaves the
  remote results and an empty local list. With the two services of the repository, the
  local list is the guarded result of the local search and the remote list is the result
  of the remote search, each whatever the other does.
\<close>

theorem per_source_isolation:
  "(namaste_search q ayush_system = Inr local \<and> fst (icd11_search q st) = Inl e \<longrightarrow>
      namaste_results (fst (search_terms namaste_search icd11_search None elapsed q BOTH ayush_system st)) =
        local \<and>
      icd11_results (fst (search_terms namaste_search icd11_search None elapsed q BOTH ayush_system st)) =
        []) \<and>
   (namaste_search q ayush_system = Inl e \<and> fst (icd11_search q st) = Inr remote \<longrightarrow>
      namaste_results (fst (search_terms namaste_search icd11_search None elapsed q BOTH ayush_system st)) =
        [] \<and>
      icd11_results (fst (search_terms namaste_search icd11_search None elapsed q BOTH ayush_system st)) =
        remote) \<and>
   namaste_results (fst (search_terms_app valid lower load env None elapsed q BOTH ayush_system s)) =
     guard_namaste (search_namaste valid lower q ayush_system load) \<and>
   icd11_results (fst (search_terms_app valid lower load env None elapsed q BOTH ayush_system s)) =
     fst (search_icd11 env q True s)"
  by (simp add: search_terms_lists search_terms_app_def guard_namaste_Inl guard_namaste_Inr
        guard_icd11_simps)

theorem per_source_isolation_witness:
  "namaste_results (fst (search_terms (\<lambda>query system. Inr [catalog_record fever_item])
       (\<lambda>query s. (Inl RequestError, s)) None 12 ''cholera'' BOTH None ())) =
     [catalog_record fever_item] \<and>
   icd11_results (fst (search_terms (\<lambda>query system. Inr [catalog_record fever_item])
       (\<lambda>query s. (Inl RequestError, s)) None 12 ''cholera'' BOTH None ())) = [] \<and>
   namaste_results (fst (search_terms_app (\<lambda>t. True) ascii_lower (Inl PermissionError)
       (sample_env second_answers) None 12 ''cholera'' BOTH None initial_state)) = [] \<and>
   icd11_results (fst (search_terms_app (\<lambda>t. True) ascii_lower (Inl PermissionError)
       (sample_env second_answers) None 12 ''cholera'' BOTH None initial_state)) =
     [entity_record (sample_env second_answers) cholera_item]"
proof -
  have l: "search_namaste (\<lambda>t. True) ascii_lower ''cholera'' None (Inl PermissionError) =
             Inl (HTTPException 500 ''NAMASTE search failed'')"
    by (simp add: search_namaste_def search_namaste_try_def)
  show ?thesis
    using
      per_source_isolation [where namaste_search = "\<lambda>query system. Inr [catalog_record fever_item]"
        and icd11_search = "\<lambda>query s. (Inl RequestError, s)" and q = "''cholera''"
        and ayush_system = None and local = "[catalog_record fever_item]" and st = "()"
        and e = RequestError and elapsed = 12 and remote = "[]" and valid = "\<lambda>t. True"
        and lower = ascii_lower and load = "Inl PermissionError"
        and env = "sample_env second_answers" and s = initial_state]
    by (simp add: l sample_second_search guard_namaste_Inl)
qed

end
